theory Spec2Isabelle
  imports Main
begin

section \<open>Python text primitives\<close>

text \<open>
  The manifest is decoded text. A \<open>string\<close> is a list of characters with the code points
  0 to 255, and the model covers the texts made of these. \<open>isspace\<close> holds for exactly
  those of them for which Python's \<open>str.isspace\<close> holds, the no-break space U+00A0 and
  the next-line character U+0085 among them, and a decimal digit is one of \<open>0..9\<close>.
\<close>

definition isspace :: "char \<Rightarrow> bool" where
  "isspace c = (c \<in> set [CHR 0x09, CHR 0x0A, CHR 0x0B, CHR 0x0C, CHR 0x0D,
                           CHR 0x1C, CHR 0x1D, CHR 0x1E, CHR 0x1F, CHR 0x20,
                           CHR 0x85, CHR 0xA0])"

definition strip :: "string \<Rightarrow> string" where
  \<comment> \<open>\<open>s.strip()\<close>\<close>
  "strip s = rev (dropWhile isspace (rev (dropWhile isspace s)))"

definition lower_letters :: string where
  "lower_letters =
     ''abcdefghijklmnopqrstuvwxyz'' @
     [CHR 0xE0, CHR 0xE1, CHR 0xE2, CHR 0xE3, CHR 0xE4, CHR 0xE5, CHR 0xE6,
      CHR 0xE7, CHR 0xE8, CHR 0xE9, CHR 0xEA, CHR 0xEB, CHR 0xEC, CHR 0xED,
      CHR 0xEE, CHR 0xEF, CHR 0xF0, CHR 0xF1, CHR 0xF2, CHR 0xF3, CHR 0xF4,
      CHR 0xF5, CHR 0xF6, CHR 0xF8, CHR 0xF9, CHR 0xFA, CHR 0xFB, CHR 0xFC,
      CHR 0xFD, CHR 0xFE]"

definition upper_letters :: string where
  "upper_letters =
     ''ABCDEFGHIJKLMNOPQRSTUVWXYZ'' @
     [CHR 0xC0, CHR 0xC1, CHR 0xC2, CHR 0xC3, CHR 0xC4, CHR 0xC5, CHR 0xC6,
      CHR 0xC7, CHR 0xC8, CHR 0xC9, CHR 0xCA, CHR 0xCB, CHR 0xCC, CHR 0xCD,
      CHR 0xCE, CHR 0xCF, CHR 0xD0, CHR 0xD1, CHR 0xD2, CHR 0xD3, CHR 0xD4,
      CHR 0xD5, CHR 0xD6, CHR 0xD8, CHR 0xD9, CHR 0xDA, CHR 0xDB, CHR 0xDC,
      CHR 0xDD, CHR 0xDE]"

definition upper_char :: "char \<Rightarrow> char" where
  \<comment> \<open>the upper case of \<open>a..z\<close> and of the letters U+00E0 to U+00FE. The three
      characters U+00B5, U+00DF and U+00FF, whose upper case is no single code point below
      256, stand for themselves: the one use of \<open>upper\<close>, at line 44 of
      \<open>lambda-testing.py\<close>, compares its result with \<open>N/A\<close>, which a text with one of
      them differs from either way\<close>
  "upper_char c = (case map_of (zip lower_letters upper_letters) c of Some u \<Rightarrow> u | None \<Rightarrow> c)"

definition upper :: "string \<Rightarrow> string" where
  \<comment> \<open>\<open>s.upper()\<close>\<close>
  "upper s = map upper_char s"

fun str_split :: "char \<Rightarrow> string \<Rightarrow> string list" where
  \<comment> \<open>\<open>s.split(sep)\<close> for a one-character separator: never the empty list\<close>
  "str_split sep [] = [[]]"
| "str_split sep (c # cs) =
     (if c = sep then [] # str_split sep cs
      else (case str_split sep cs of
              t # ts \<Rightarrow> (c # t) # ts
            | [] \<Rightarrow> [[c]]))"

definition is_digit :: "char \<Rightarrow> bool" where
  "is_digit c = (c \<in> set ''0123456789'')"

definition digit_value :: "char \<Rightarrow> int" where
  "digit_value c = int (of_char c) - 48"

definition py_int :: "string \<Rightarrow> int" where
  \<comment> \<open>\<open>int(s)\<close> on a string of digits with optional surrounding whitespace\<close>
  "py_int s = foldl (\<lambda>n c. 10 * n + digit_value c) 0 (strip s)"

definition digit_char :: "nat \<Rightarrow> char" where
  "digit_char n = ''0123456789'' ! (n mod 10)"

fun str_nat :: "nat \<Rightarrow> string" where
  "str_nat n = (if n < 10 then [digit_char n] else str_nat (n div 10) @ [digit_char n])"

declare str_nat.simps [simp del]

definition str_int :: "int \<Rightarrow> string" where
  \<comment> \<open>\<open>str(i)\<close>, which is also how an f-string renders an integer\<close>
  "str_int i = (if i < 0 then CHR ''-'' # str_nat (nat (- i)) else str_nat (nat i))"


section \<open>Exceptions\<close>

text \<open>
  Every exception the two handlers can meet. \<open>External msg\<close> stands for an exception
  raised by a collaborator (the object store, the CSV reader, the mail transport), with
  \<open>msg\<close> its \<open>str(e)\<close>.
\<close>

datatype exn = ValueError | AttributeError | External string


section \<open>Dates\<close>

text \<open>
  \<open>datetime.date\<close> and \<open>datetime.datetime\<close>, with the proleptic Gregorian ordinal that
  Python's subtraction of dates is built on.
\<close>

record date =
  year :: int
  month :: int
  day :: int

record datetime = date +
  hour :: int
  minute :: int
  second :: int
  microsecond :: int

record timedelta =
  days :: int
  seconds :: int
  microseconds :: int

definition is_leap :: "int \<Rightarrow> bool" where
  "is_leap y = (y mod 4 = 0 \<and> (y mod 100 \<noteq> 0 \<or> y mod 400 = 0))"

definition days_before_year :: "int \<Rightarrow> int" where
  "days_before_year yr = (let y = yr - 1 in y * 365 + y div 4 - y div 100 + y div 400)"

definition days_in_month :: "int \<Rightarrow> int \<Rightarrow> int" where
  \<comment> \<open>for \<open>1 \<le> m \<le> 12\<close>, which every caller has checked\<close>
  "days_in_month y m =
     (if m = 2 \<and> is_leap y then 29
      else [31, 28, 31, 30, 31, 30, 31, 31, 30, 31, 30, 31] ! nat (m - 1))"

definition days_before_month :: "int \<Rightarrow> int \<Rightarrow> int" where
  \<comment> \<open>for \<open>1 \<le> m \<le> 12\<close>\<close>
  "days_before_month y m =
     [0, 31, 59, 90, 120, 151, 181, 212, 243, 273, 304, 334] ! nat (m - 1)
       + (if m > 2 \<and> is_leap y then 1 else 0)"

definition ymd2ord :: "int \<Rightarrow> int \<Rightarrow> int \<Rightarrow> int" where
  "ymd2ord y m d = days_before_year y + days_before_month y m + d"

definition toordinal :: "'a date_scheme \<Rightarrow> int" where
  \<comment> \<open>\<open>d.toordinal()\<close>; a datetime's ordinal is that of its date\<close>
  "toordinal d = ymd2ord (year d) (month d) (day d)"

definition valid_date :: "int \<Rightarrow> int \<Rightarrow> int \<Rightarrow> bool" where
  \<comment> \<open>the check of the date constructor: year in \<open>MINYEAR..MAXYEAR\<close>, day within the month\<close>
  "valid_date y m d =
     (1 \<le> y \<and> y \<le> 9999 \<and> 1 \<le> m \<and> m \<le> 12 \<and> 1 \<le> d \<and> d \<le> days_in_month y m)"

definition valid_time :: "datetime \<Rightarrow> bool" where
  \<comment> \<open>the check of the datetime constructor on the time of day\<close>
  "valid_time dt =
     (0 \<le> hour dt \<and> hour dt < 24 \<and> 0 \<le> minute dt \<and> minute dt < 60 \<and>
      0 \<le> second dt \<and> second dt < 60 \<and> 0 \<le> microsecond dt \<and> microsecond dt < 1000000)"

definition make_timedelta :: "int \<Rightarrow> int \<Rightarrow> int \<Rightarrow> timedelta" where
  \<comment> \<open>\<open>timedelta(d, s, us)\<close>: normalised to \<open>0 \<le> seconds < 86400\<close>,
      \<open>0 \<le> microseconds < 1000000\<close>, with floor division carrying into the days\<close>
  "make_timedelta d s us =
     (let s1 = s + us div 1000000
      in \<lparr>days = d + s1 div 86400, seconds = s1 mod 86400, microseconds = us mod 1000000\<rparr>)"

definition datetime_sub :: "datetime \<Rightarrow> datetime \<Rightarrow> timedelta" where
  \<comment> \<open>\<open>a - b\<close> on two naive datetimes\<close>
  "datetime_sub a b =
     (let days1 = toordinal a; days2 = toordinal b;
          secs1 = second a + minute a * 60 + hour a * 3600;
          secs2 = second b + minute b * 60 + hour b * 3600
      in make_timedelta (days1 - days2) (secs1 - secs2) (microsecond a - microsecond b))"

definition date_sub :: "date \<Rightarrow> date \<Rightarrow> timedelta" where
  \<comment> \<open>\<open>a - b\<close> on two dates\<close>
  "date_sub a b = make_timedelta (toordinal a - toordinal b) 0 0"

definition date_of :: "datetime \<Rightarrow> date" where
  \<comment> \<open>\<open>dt.date()\<close>\<close>
  "date_of dt = \<lparr>year = year dt, month = month dt, day = day dt\<rparr>"


subsection \<open>Parsing with the format \<open>%d-%m-%Y\<close>\<close>

text \<open>
  \<open>strptime\<close> turns the format into the regular expression
  \<^verbatim>\<open>(3[0-1]|[1-2]\d|0[1-9]|[1-9]| [1-9])-(1[0-2]|0[1-9]|[1-9])-(\d\d\d\d)\<close>,
  requires it to match the whole text, and then builds the date, which fails for a day
  the month does not have and for the year 0. Every failure is a \<open>ValueError\<close>. Since the
  separators are not digits, the three groups are the three fields between the hyphens.
\<close>

definition match_day :: "string \<Rightarrow> bool" where
  "match_day t =
     (case t of
        [a] \<Rightarrow> a \<in> set ''123456789''
      | [a, b] \<Rightarrow>
          (a = CHR ''3'' \<and> b \<in> set ''01'') \<or>
          (a \<in> set ''12'' \<and> is_digit b) \<or>
          (a = CHR ''0'' \<and> b \<in> set ''123456789'') \<or>
          (a = CHR '' '' \<and> b \<in> set ''123456789'')
      | _ \<Rightarrow> False)"

definition match_month :: "string \<Rightarrow> bool" where
  "match_month t =
     (case t of
        [a] \<Rightarrow> a \<in> set ''123456789''
      | [a, b] \<Rightarrow>
          (a = CHR ''1'' \<and> b \<in> set ''012'') \<or>
          (a = CHR ''0'' \<and> b \<in> set ''123456789'')
      | _ \<Rightarrow> False)"

definition match_year :: "string \<Rightarrow> bool" where
  "match_year t = (length t = 4 \<and> list_all is_digit t)"

definition strptime :: "string \<Rightarrow> exn + datetime" where
  \<comment> \<open>\<open>datetime.datetime.strptime(s, '%d-%m-%Y')\<close>\<close>
  "strptime s =
     (case str_split CHR ''-'' s of
        [d, m, y] \<Rightarrow>
          if match_day d \<and> match_month m \<and> match_year y then
            (if valid_date (py_int y) (py_int m) (py_int d) then
               Inr \<lparr>year = py_int y, month = py_int m, day = py_int d,
                    hour = 0, minute = 0, second = 0, microsecond = 0\<rparr>
             else Inl ValueError)
          else Inl ValueError
      | _ \<Rightarrow> Inl ValueError)"

section \<open>Manifest rows and Python values\<close>

text \<open>
  \<open>csv.DictReader\<close> yields one dictionary per data row. Under the header names it holds
  the row's texts, or \<open>None\<close> for a column the row is too short for; a row longer than
  the header keeps the surplus values under the key \<open>None\<close>. A value is a
  \<open>string option\<close>, with \<open>None\<close> for Python's \<open>None\<close>.
\<close>

record row =
  cells :: "(string \<times> string option) list"
  restkey :: "string list option"

record reader =
  fieldnames :: "string list option"
  rows :: "row list"
  failure :: "exn option"

text \<open>
  The reader is lazy: \<open>rows\<close> are the rows it yields and \<open>failure\<close> the exception, if any,
  that it raises when asked for the row after them. A manifest is the outcome of the
  statements before the loop (fetch, decode, reading the header): an exception or a reader.
\<close>

type_synonym manifest = "exn + reader"

definition dict_get :: "('k \<times> 'v option) list \<Rightarrow> 'k \<Rightarrow> 'v option" where
  \<comment> \<open>\<open>d.get(k)\<close>: \<open>None\<close> for a missing key and for a stored \<open>None\<close>\<close>
  "dict_get d k = (case map_of d k of Some v \<Rightarrow> v | None \<Rightarrow> None)"

definition dict_get_default :: "('k \<times> 'v option) list \<Rightarrow> 'k \<Rightarrow> 'v \<Rightarrow> 'v option" where
  \<comment> \<open>\<open>d.get(k, dflt)\<close>: the default for a missing key only\<close>
  "dict_get_default d k dflt = (case map_of d k of Some v \<Rightarrow> v | None \<Rightarrow> Some dflt)"

fun dict_set :: "('k \<times> 'v) list \<Rightarrow> 'k \<Rightarrow> 'v \<Rightarrow> ('k \<times> 'v) list" where
  \<comment> \<open>\<open>d[k] = v\<close> on an insertion-ordered dictionary\<close>
  "dict_set [] k v = [(k, v)]"
| "dict_set ((k', v') # d) k v = (if k' = k then (k, v) # d else (k', v') # dict_set d k v)"

definition truthy :: "string option \<Rightarrow> bool" where
  "truthy v = (case v of Some s \<Rightarrow> s \<noteq> [] | None \<Rightarrow> False)"

definition py_or :: "string option \<Rightarrow> string option \<Rightarrow> string option" where
  \<comment> \<open>\<open>a or b\<close>\<close>
  "py_or a b = (if truthy a then a else b)"

definition or_str :: "string option \<Rightarrow> string \<Rightarrow> string" where
  \<comment> \<open>\<open>a or 'literal'\<close> with a non-empty literal\<close>
  "or_str a dflt = (case a of Some s \<Rightarrow> if s \<noteq> [] then s else dflt | None \<Rightarrow> dflt)"


section \<open>The outside world: mail transport and console\<close>

record message =
  source :: string
  to_addresses :: "string list"
  subject :: string
  text_data :: string
  html_data :: string

text \<open>
  One constructor per message that a \<open>print\<close> statement can write, holding the values it
  prints; a message that both files print with the same words has one constructor. The
  prints of lines 79 and 84 of \<open>lambda-testing.py\<close> stand in \<open>except\<close> clauses around code
  that raises nothing, and have none.
\<close>

datatype log_event =
    LogColumns "string list option"
  | LogToday date
  | LogRow row
  | LogNoExpiry string
  | LogDays string string int
  | LogNotified string "string list"
  | LogRowError "string option" exn
  | LogSummary int int int
  | LogFailed exn
  | LogSent string "string list"
  | LogRetry int string
  | LogGaveUp int string
  | LogSending string nat
  | LogProcessedSent int int
  | LogFatal exn
  | LogEmailSent string
  | LogAttemptFailed int string exn
  | LogNoValidExpiry string
  | LogDaysLeft string date int
  | LogAllFailed int string

record world =
  attempts :: "message list"
  stdout :: "log_event list"

text \<open>
  The transport decides each call of \<open>ses.send_email\<close>: \<open>tr n m\<close> is \<open>None\<close> when the
  call number \<open>n\<close> (counted from 0 over the whole run) with message \<open>m\<close> is accepted,
  and \<open>Some e\<close> when it raises \<open>e\<close>. Every call is recorded in \<open>attempts\<close>.
\<close>

type_synonym transport = "nat \<Rightarrow> message \<Rightarrow> exn option"

definition print_line :: "log_event \<Rightarrow> world \<Rightarrow> world" where
  "print_line e w = w\<lparr>stdout := stdout w @ [e]\<rparr>"

definition send_email :: "transport \<Rightarrow> message \<Rightarrow> world \<Rightarrow> exn option \<times> world" where
  "send_email tr m w = (tr (length (attempts w)) m, w\<lparr>attempts := attempts w @ [m]\<rparr>)"

definition max_retries :: int where
  "max_retries = 3"

text \<open>
  Both handlers begin with \<open>boto3.client('s3')\<close> and \<open>boto3.client('ses')\<close>. Each call
  builds its client or raises, as it does when no region is configured; the environment
  says which: \<open>None\<close> for a client that is built, \<open>Some e\<close> for a call that raises \<open>e\<close>.
\<close>

record environment =
  s3_client :: "exn option"
  ses_client :: "exn option"

definition boto3_clients :: "environment \<Rightarrow> exn option" where
  \<comment> \<open>the two calls in their order: the exception of the first that raises, if one does\<close>
  "boto3_clients env = (case s3_client env of Some e \<Rightarrow> Some e | None \<Rightarrow> ses_client env)"


section \<open>The single-key handler (\<open>gpg-keys-lambda.py\<close>)\<close>

record stats =
  processed :: int
  notified :: int
  errors :: int

datatype body = ProcessedBody int int | ErrorBody exn

text \<open>
  \<open>ProcessedBody p n\<close> is the JSON text of \<open>Processed p keys, sent n notifications\<close> and
  \<open>ErrorBody e\<close> that of \<open>Error: \<close> followed by \<open>str(e)\<close>.
\<close>

record response =
  statusCode :: int
  body :: body

definition gpg_sender_email :: string where
  "gpg_sender_email = ''avarikoti@gmail.com''"

definition gpg_subject :: "string \<Rightarrow> string" where
  "gpg_subject key_name = ''Key Expiration Alert: '' @ key_name @ '' - Action Required''"

definition gpg_html_body :: "string \<Rightarrow> string \<Rightarrow> int \<Rightarrow> string" where
  \<open>gpg_html_body key_name expiry_date days_remaining =
     ''\<newline>'' @
     ''    <html>\<newline>'' @
     ''    <head>\<newline>'' @
     ''        <style>\<newline>'' @
     ''            body { font-family: Arial, sans-serif; line-height: 1.6; color: #333; }\<newline>'' @
     ''            .container { max-width: 600px; margin: 0 auto; padding: 20px; }\<newline>'' @
     ''            .header { background-color: #f8d7da; color: #721c24; padding: 15px; text-align: center; border-radius: 5px; }\<newline>'' @
     ''            .content { background-color: #f8f9fa; padding: 20px; border-radius: 5px; margin: 15px 0; }\<newline>'' @
     ''            .key-details { background-color: #f8f9fa; padding: 15px; border-left: 4px solid #ccc; margin: 15px 0; }\<newline>'' @
     ''            .action { background-color: #d1ecf1; color: #0c5460; padding: 15px; border-radius: 5px; }\<newline>'' @
     ''            .footer { font-size: 12px; color: #6c757d; margin-top: 30px; text-align: center; }\<newline>'' @
     ''        </style>\<newline>'' @
     ''    </head>\<newline>'' @
     ''    <body>\<newline>'' @
     ''        <div class="container">\<newline>'' @
     ''            <div class="header">\<newline>'' @
     ''                <h1>Key Expiration Alert !!</h1>\<newline>'' @
     ''            </div>\<newline>'' @
     ''            \<newline>'' @
     ''            <div class="content">\<newline>'' @
     ''                <p>This is an automated notification that the following key is approaching expiration:</p>\<newline>'' @
     ''                <div class="key-details">\<newline>'' @
     ''                    <strong>Key Name:</strong> '' @
     key_name @
     ''<br>\<newline>'' @
     ''                    <strong>Expiration Date:</strong> DD-MM-YYYY:'' @
     expiry_date @
     ''<br>\<newline>'' @
     ''                    <strong>Days Remaining:</strong> '' @
     str_int days_remaining @
     ''\<newline>'' @
     ''                </div>\<newline>'' @
     ''            </div>\<newline>'' @
     ''            \<newline>'' @
     ''            <div class="action">\<newline>'' @
     ''                <strong>Action Required</strong><br>\<newline>'' @
     ''                Update the key before expiration.\<newline>'' @
     ''            </div>\<newline>'' @
     ''            \<newline>'' @
     ''            <div class="footer">\<newline>'' @
     ''                This is an automated notification sent 14 days before key expiration.\<newline>'' @
     ''            </div>\<newline>'' @
     ''        </div>\<newline>'' @
     ''    </body>\<newline>'' @
     ''    </html>\<newline>'' @
     ''    ''\<close>

definition gpg_text_body :: "string \<Rightarrow> string \<Rightarrow> int \<Rightarrow> string" where
  "gpg_text_body key_name expiry_date days_remaining =
     ''\<newline>'' @
     ''    KEY EXPIRATION ALERT        ACTION REQUIRED\<newline>'' @
     ''    \<newline>'' @
     ''    Key Name: '' @
     key_name @
     ''\<newline>'' @
     ''    Expiration Date: '' @
     expiry_date @
     ''\<newline>'' @
     ''    Days Remaining: '' @
     str_int days_remaining @
     ''\<newline>'' @
     ''    \<newline>'' @
     ''    Please take immediate action to update/rotate this key before expiration.\<newline>'' @
     ''    \<newline>'' @
     ''    This is an automated notification sent 14 days before key expiration.\<newline>'' @
     ''    ''"

function gpg_send_attempts ::
  "transport \<Rightarrow> message \<Rightarrow> string \<Rightarrow> int \<Rightarrow> world \<Rightarrow> (exn + unit) \<times> world" where
  \<comment> \<open>\<open>for attempt in range(max_retries)\<close>, from \<open>attempt\<close> on; \<open>time.sleep\<close> is not modelled\<close>
  "gpg_send_attempts tr m key_name attempt w =
     (if attempt < max_retries then
        (case send_email tr m w of
           (None, w1) \<Rightarrow> (Inr (), print_line (LogSent key_name (to_addresses m)) w1)
         | (Some e, w1) \<Rightarrow>
             if attempt < max_retries - 1 then
               gpg_send_attempts tr m key_name (attempt + 1)
                 (print_line (LogRetry (attempt + 1) key_name) w1)
             else (Inl e, print_line (LogGaveUp max_retries key_name) w1))
      else (Inr (), w))"
  by pat_completeness auto
termination
  by (relation "measure (\<lambda>(tr, m, key_name, attempt, w). nat (max_retries - attempt))") auto

declare gpg_send_attempts.simps [simp del]

definition formatted_message ::
  "string \<Rightarrow> string list \<Rightarrow> string \<Rightarrow> string \<Rightarrow> int \<Rightarrow> message" where
  \<comment> \<open>the arguments of \<open>ses.send_email\<close>, lines 162-172\<close>
  "formatted_message sender recipients key_name expiry_date days_remaining =
     \<lparr>source = sender, to_addresses = recipients, subject = gpg_subject key_name,
      text_data = gpg_text_body key_name expiry_date days_remaining,
      html_data = gpg_html_body key_name expiry_date days_remaining\<rparr>"

definition send_formatted_email ::
  "transport \<Rightarrow> string \<Rightarrow> string list \<Rightarrow> string \<Rightarrow> string \<Rightarrow> int \<Rightarrow> world
     \<Rightarrow> (exn + unit) \<times> world" where
  "send_formatted_email tr sender recipients key_name expiry_date days_remaining w =
     gpg_send_attempts tr
       (formatted_message sender recipients key_name expiry_date days_remaining) key_name 0 w"

definition gpg_days_until_expiry :: "datetime \<Rightarrow> datetime \<Rightarrow> int" where
  \<comment> \<open>line 55: \<open>(expiry_date - today).days\<close> with \<open>today = datetime.datetime.now()\<close>\<close>
  "gpg_days_until_expiry expiry today = days (datetime_sub expiry today)"

definition gpg_notifiable :: "int \<Rightarrow> bool" where
  \<comment> \<open>line 61, the exact-or-soon policy\<close>
  "gpg_notifiable d = (d = 14 \<or> (1 \<le> d \<and> d \<le> 3))"

definition gpg_key_name :: "row \<Rightarrow> string" where
  "gpg_key_name row =
     or_str (py_or (dict_get (cells row) ''GPG_Private_Key'')
                   (dict_get (cells row) ''GPG_private_key'')) ''unknown''"

definition gpg_expiry_date_str :: "row \<Rightarrow> string option" where
  "gpg_expiry_date_str row =
     py_or (py_or (dict_get (cells row) ''GPG_Key_Expiry'')
                  (dict_get (cells row) ''GPG_key_expiry''))
           (dict_get (cells row) ''expiry_date'')"

definition email_column :: "(string \<times> string option) list \<Rightarrow> string option" where
  \<comment> \<open>\<open>row.get('PIC_Email') or row.get('PIC_email', '')\<close>, the same in both files\<close>
  "email_column d = py_or (dict_get d ''PIC_Email'') (dict_get_default d ''PIC_email'' [])"

definition gpg_recipients :: "string \<Rightarrow> string list" where
  \<comment> \<open>line 65\<close>
  "gpg_recipients field = map strip (str_split CHR '','' field)"

definition gpg_row_body ::
  "transport \<Rightarrow> datetime \<Rightarrow> row \<Rightarrow> stats \<times> world \<Rightarrow> exn option \<times> stats \<times> world" where
  \<comment> \<open>lines 45-78, the body of the inner \<open>try\<close>: \<open>Some e\<close> when it raises \<open>e\<close>,
      \<open>None\<close> when it ends or reaches \<open>continue\<close>\<close>
  "gpg_row_body tr today row sw =
     (case sw of (st, w) \<Rightarrow>
        let key_name = gpg_key_name row;
            expiry_date_str = gpg_expiry_date_str row
        in if \<not> truthy expiry_date_str then (None, st, print_line (LogNoExpiry key_name) w)
           else
             (case expiry_date_str of
                None \<Rightarrow> (None, st, print_line (LogNoExpiry key_name) w)
              | Some s \<Rightarrow>
                  (case strptime s of
                     Inl e \<Rightarrow> (Some e, st, w)
                   | Inr expiry_date \<Rightarrow>
                       let days_until_expiry = gpg_days_until_expiry expiry_date today;
                           w1 = print_line (LogDays key_name s days_until_expiry) w
                       in if gpg_notifiable days_until_expiry then
                            (case email_column (cells row) of
                               None \<Rightarrow> (Some AttributeError, st, w1)
                             | Some field \<Rightarrow>
                                 let recipients = gpg_recipients field
                                 in (case send_formatted_email tr gpg_sender_email recipients
                                            key_name s days_until_expiry w1 of
                                       (Inl e, w2) \<Rightarrow> (Some e, st, w2)
                                     | (Inr u, w2) \<Rightarrow>
                                         (None, st\<lparr>notified := notified st + 1\<rparr>,
                                          print_line (LogNotified key_name recipients) w2)))
                          else (None, st, w1))))"

definition gpg_error_key :: "row \<Rightarrow> string option" where
  \<comment> \<open>line 82: \<open>row.get('GPG_Private_Key', row.get('GPG_private_key', 'unknown'))\<close>\<close>
  "gpg_error_key row =
     (case map_of (cells row) ''GPG_Private_Key'' of
        Some v \<Rightarrow> v
      | None \<Rightarrow> dict_get_default (cells row) ''GPG_private_key'' ''unknown'')"

definition gpg_process_row ::
  "transport \<Rightarrow> datetime \<Rightarrow> row \<Rightarrow> stats \<times> world \<Rightarrow> stats \<times> world" where
  \<comment> \<open>lines 42-83, one iteration of the row loop\<close>
  "gpg_process_row tr today row sw =
     (case sw of (st, w) \<Rightarrow>
        (case gpg_row_body tr today row
                (st\<lparr>processed := processed st + 1\<rparr>, print_line (LogRow row) w) of
           (None, st1, w1) \<Rightarrow> (st1, w1)
         | (Some e, st1, w1) \<Rightarrow>
             (st1\<lparr>errors := errors st1 + 1\<rparr>,
              print_line (LogRowError (gpg_error_key row) e) w1)))"

fun gpg_process_rows ::
  "transport \<Rightarrow> datetime \<Rightarrow> row list \<Rightarrow> stats \<times> world \<Rightarrow> stats \<times> world" where
  \<comment> \<open>\<open>for row in csv_reader\<close>\<close>
  "gpg_process_rows tr today [] sw = sw"
| "gpg_process_rows tr today (row # rest) sw =
     gpg_process_rows tr today rest (gpg_process_row tr today row sw)"

definition gpg_try_block ::
  "transport \<Rightarrow> manifest \<Rightarrow> datetime \<Rightarrow> world \<Rightarrow> (exn + response) \<times> world" where
  \<comment> \<open>lines 19-89, the body of the outer \<open>try\<close>\<close>
  "gpg_try_block tr fetch today w =
     (case fetch of
        Inl e \<Rightarrow> (Inl e, w)
      | Inr csv_reader \<Rightarrow>
          let w1 = print_line (LogColumns (fieldnames csv_reader)) w;
              w2 = print_line (LogToday (date_of today)) w1
          in (case gpg_process_rows tr today (rows csv_reader)
                     (\<lparr>processed = 0, notified = 0, errors = 0\<rparr>, w2) of
                (st, w3) \<Rightarrow>
                  (case failure csv_reader of
                     Some e \<Rightarrow> (Inl e, w3)
                   | None \<Rightarrow>
                       (Inr \<lparr>statusCode = 200,
                             body = ProcessedBody (processed st) (notified st)\<rparr>,
                        print_line (LogSummary (processed st) (notified st) (errors st)) w3))))"

definition lambda_handler_gpg ::
  "environment \<Rightarrow> transport \<Rightarrow> manifest \<Rightarrow> datetime \<Rightarrow> world
     \<Rightarrow> (exn + response) \<times> world" where
  \<comment> \<open>lines 8-97: the two clients, built outside the \<open>try\<close>, then the \<open>try\<close> with its
      \<open>except Exception\<close> clause. \<open>Inl e\<close> is the exception \<open>e\<close> leaving the handler\<close>
  "lambda_handler_gpg env tr fetch today w =
     (case boto3_clients env of
        Some e \<Rightarrow> (Inl e, w)
      | None \<Rightarrow>
          (case gpg_try_block tr fetch today w of
             (Inr r, w1) \<Rightarrow> (Inr r, w1)
           | (Inl outer_error, w1) \<Rightarrow>
               (Inr \<lparr>statusCode = 500, body = ErrorBody outer_error\<rparr>,
                print_line (LogFailed outer_error) w1)))"

section \<open>The consolidated handler (\<open>lambda-testing.py\<close>)\<close>

record key_info =
  feed_name :: string
  key_name :: string
  expiry_date :: string
  days_until_expiry :: int

text \<open>
  \<open>recipient_keys\<close> is an insertion-ordered dictionary from a recipient to the list of
  the keys to report to it: an association list with distinct keys.
\<close>

type_synonym bundles = "(string \<times> key_info list) list"

record aggregate =
  keys_processed :: int
  recipient_keys :: bundles

definition testing_sender_email :: string where
  "testing_sender_email = ''x''"

definition stripped_cells :: "row \<Rightarrow> (string \<times> string option) list" where
  \<comment> \<open>the dictionary that \<open>{k.strip(): v for k, v in ...}\<close> builds from the items under
      the header names\<close>
  "stripped_cells row = foldl (\<lambda>d (k, v). dict_set d (strip k) v) [] (cells row)"

definition strip_keys :: "row \<Rightarrow> exn + (string \<times> string option) list" where
  \<comment> \<open>line 35, \<open>{k.strip(): v for k, v in row.items()}\<close>: the key \<open>None\<close> of a row
      longer than the header has no \<open>strip\<close>\<close>
  "strip_keys row =
     (case restkey row of
        Some extra \<Rightarrow> Inl AttributeError
      | None \<Rightarrow> Inr (stripped_cells row))"

definition testing_key_name :: "(string \<times> string option) list \<Rightarrow> string" where
  "testing_key_name d =
     or_str (py_or (dict_get d ''GPG_Private_Key'') (dict_get d ''GPG_private_key'')) ''unknown''"

definition testing_feed_name :: "(string \<times> string option) list \<Rightarrow> string" where
  "testing_feed_name d =
     or_str (py_or (dict_get d ''Feed_Name'') (dict_get d ''feed_name'')) ''unknown''"

definition testing_expiry_date_str :: "(string \<times> string option) list \<Rightarrow> string option" where
  "testing_expiry_date_str d =
     py_or (py_or (dict_get d ''GPG_Key_Expiry'') (dict_get d ''gpg_key_expiry''))
           (dict_get d ''expiry_date'')"

definition testing_days_until_expiry :: "date \<Rightarrow> date \<Rightarrow> int" where
  \<comment> \<open>line 49: \<open>(expiry_date - today).days\<close> with \<open>today = datetime.date.today()\<close>\<close>
  "testing_days_until_expiry expiry today = days (date_sub expiry today)"

definition testing_notifiable :: "int \<Rightarrow> bool" where
  \<comment> \<open>line 53, the window policy\<close>
  "testing_notifiable d = (0 \<le> d \<and> d \<le> 30)"

fun setdefault_append :: "bundles \<Rightarrow> string \<Rightarrow> key_info \<Rightarrow> bundles" where
  \<comment> \<open>\<open>recipient_keys.setdefault(recipient, []).append(key)\<close>\<close>
  "setdefault_append [] recipient key = [(recipient, [key])]"
| "setdefault_append ((r, keys) # rest) recipient key =
     (if r = recipient then (r, keys @ [key]) # rest
      else (r, keys) # setdefault_append rest recipient key)"

fun add_recipients :: "key_info \<Rightarrow> string list \<Rightarrow> bundles \<Rightarrow> bundles" where
  \<comment> \<open>lines 57-65, \<open>for recipient in email.split(',')\<close>\<close>
  "add_recipients key [] rk = rk"
| "add_recipients key (segment # rest) rk =
     (let recipient = strip segment
      in if recipient \<noteq> [] then add_recipients key rest (setdefault_append rk recipient key)
         else add_recipients key rest rk)"

definition testing_row_body ::
  "date \<Rightarrow> row \<Rightarrow> aggregate \<times> world \<Rightarrow> exn option \<times> aggregate \<times> world" where
  \<comment> \<open>lines 35-67, the body of the inner \<open>try\<close>: \<open>Some e\<close> when it raises \<open>e\<close>,
      \<open>None\<close> when it ends or reaches \<open>continue\<close>\<close>
  "testing_row_body today row aw =
     (case aw of (agg, w) \<Rightarrow>
        (case strip_keys row of
           Inl e \<Rightarrow> (Some e, agg, w)
         | Inr d \<Rightarrow>
             let expiry_date_str = testing_expiry_date_str d
             in if \<not> truthy expiry_date_str then
                  (None, agg, print_line (LogNoValidExpiry (testing_key_name d)) w)
                else
                  (case expiry_date_str of
                     None \<Rightarrow>
                       (None, agg, print_line (LogNoValidExpiry (testing_key_name d)) w)
                   | Some s \<Rightarrow>
                       if upper (strip s) = ''N/A'' then
                         (None, agg, print_line (LogNoValidExpiry (testing_key_name d)) w)
                       else
                         (case strptime s of
                            Inl e \<Rightarrow> (Some e, agg, w)
                          | Inr parsed \<Rightarrow>
                              let days_left = testing_days_until_expiry (date_of parsed) today;
                                  w1 = print_line
                                         (LogDaysLeft (testing_key_name d) (date_of parsed)
                                            days_left) w
                              in if testing_notifiable days_left then
                                   (case email_column d of
                                      None \<Rightarrow> (Some AttributeError, agg, w1)
                                    | Some field \<Rightarrow>
                                        let email = strip field;
                                            key = \<lparr>feed_name = testing_feed_name d,
                                                   key_name = testing_key_name d,
                                                   expiry_date = s,
                                                   days_until_expiry = days_left\<rparr>;
                                            rk = (if email \<noteq> [] then
                                                    add_recipients key (str_split CHR '','' email)
                                                      (recipient_keys agg)
                                                  else recipient_keys agg)
                                        in (None,
                                            agg\<lparr>keys_processed := keys_processed agg + 1,
                                                recipient_keys := rk\<rparr>,
                                            w1))
                                 else
                                   (None, agg\<lparr>keys_processed := keys_processed agg + 1\<rparr>, w1)))))"

definition testing_error_key :: "row \<Rightarrow> string" where
  \<comment> \<open>line 69, \<open>row.get('GPG_Private_Key') or 'unknown'\<close>: \<open>row\<close> is the dictionary with
      stripped keys once line 35 has run, and the reader's own before\<close>
  "testing_error_key row =
     (case strip_keys row of
        Inl e \<Rightarrow> or_str (dict_get (cells row) ''GPG_Private_Key'') ''unknown''
      | Inr d \<Rightarrow> or_str (dict_get d ''GPG_Private_Key'') ''unknown'')"

definition testing_process_row :: "date \<Rightarrow> row \<Rightarrow> aggregate \<times> world \<Rightarrow> aggregate \<times> world" where
  \<comment> \<open>lines 33-69, one iteration of the row loop\<close>
  "testing_process_row today row aw =
     (case aw of (agg, w) \<Rightarrow>
        (case testing_row_body today row (agg, print_line (LogRow row) w) of
           (None, agg1, w1) \<Rightarrow> (agg1, w1)
         | (Some e, agg1, w1) \<Rightarrow>
             (agg1, print_line (LogRowError (Some (testing_error_key row)) e) w1)))"

fun testing_process_rows ::
  "date \<Rightarrow> row list \<Rightarrow> aggregate \<times> world \<Rightarrow> aggregate \<times> world" where
  \<comment> \<open>\<open>for row in csv_reader\<close>\<close>
  "testing_process_rows today [] aw = aw"
| "testing_process_rows today (row # rest) aw =
     testing_process_rows today rest (testing_process_row today row aw)"

definition testing_subject :: string where
  "testing_subject = ''GPG Key Expiration ALERT-Action Required''"

definition table_row_html :: "int \<Rightarrow> key_info \<Rightarrow> string" where
  \<comment> \<open>lines 95-103, what one key adds to \<open>table_rows_html\<close>\<close>
  "table_row_html index key =
     ''\<newline>'' @
     ''        <tr>\<newline>'' @
     ''            <td>'' @
     str_int index @
     ''</td>\<newline>'' @
     ''            <td>'' @
     feed_name key @
     ''</td>\<newline>'' @
     ''            <td>'' @
     key_name key @
     ''</td>\<newline>'' @
     ''            <td>'' @
     expiry_date key @
     ''</td>\<newline>'' @
     ''            <td>'' @
     str_int (days_until_expiry key) @
     ''</td>\<newline>'' @
     ''        </tr>\<newline>'' @
     ''        ''"

fun table_rows_html_from :: "int \<Rightarrow> key_info list \<Rightarrow> string" where
  \<comment> \<open>lines 93-103, the loop over \<open>enumerate(key_data, start=index)\<close>\<close>
  "table_rows_html_from index [] = []"
| "table_rows_html_from index (key # rest) =
     table_row_html index key @ table_rows_html_from (index + 1) rest"

definition testing_html_body :: "string \<Rightarrow> string" where
  \<open>testing_html_body table_rows_html =
     ''\<newline>'' @
     ''    <html>\<newline>'' @
     ''    <head>\<newline>'' @
     ''        <style>\<newline>'' @
     ''            table { border-collapse: collapse; width: 100%; }\<newline>'' @
     ''            th, td { border: 1px solid #ddd; padding: 8px; }\<newline>'' @
     ''            th { background-color: #f2f2f2; }\<newline>'' @
     ''            .footer { font-size: 12px; color: #666; margin-top: 20px; }\<newline>'' @
     ''        </style>\<newline>'' @
     ''    </head>\<newline>'' @
     ''    <body>\<newline>'' @
     ''        <h1>Key Expiration Alert</h1>\<newline>'' @
     ''        <p>The following keys are approaching expiration:</p>\<newline>'' @
     ''        <table>\<newline>'' @
     ''            <thead>\<newline>'' @
     ''                <tr>\<newline>'' @
     ''                    <th>S.No</th>\<newline>'' @
     ''                    <th>Feed Name</th>\<newline>'' @
     ''                    <th>GPG Private Key</th>\<newline>'' @
     ''                    <th>Expiry Date</th>\<newline>'' @
     ''                    <th>Days Remaining</th>\<newline>'' @
     ''                </tr>\<newline>'' @
     ''            </thead>\<newline>'' @
     ''            <tbody>\<newline>'' @
     ''                '' @
     table_rows_html @
     ''\<newline>'' @
     ''            </tbody>\<newline>'' @
     ''        </table>\<newline>'' @
     ''        <br>\<newline>'' @
     ''        <br>\<newline>'' @
     ''        <div class="action">\<newline>'' @
     ''            <strong>Action Required</strong><br>\<newline>'' @
     ''            Please update these keys before expiration.\<newline>'' @
     ''        </div>\<newline>'' @
     ''       \<newline>'' @
     ''    </body>\<newline>'' @
     ''    </html>\<newline>'' @
     ''    ''\<close>

definition text_line :: "int \<Rightarrow> key_info \<Rightarrow> string" where
  \<comment> \<open>line 145\<close>
  "text_line index key =
     str_int index @ ''. '' @ feed_name key @ '' | '' @ key_name key @ '' | '' @
     expiry_date key @ '' | '' @ str_int (days_until_expiry key) @ '' days\<newline>''"

fun text_lines_from :: "int \<Rightarrow> key_info list \<Rightarrow> string" where
  \<comment> \<open>lines 144-145\<close>
  "text_lines_from index [] = []"
| "text_lines_from index (key # rest) = text_line index key @ text_lines_from (index + 1) rest"

definition testing_text_body :: "key_info list \<Rightarrow> string" where
  \<comment> \<open>lines 143-147\<close>
  "testing_text_body key_data =
     ''GPG KEY EXPIRATION ALERT - ACTION REQUIRED\<newline>\<newline>'' @
     text_lines_from 1 key_data @
     ''\<newline>Please update these keys before expiration.\<newline>'' @
     ''This is an automated notification sent 30 days before key expiration.''"

function testing_send_attempts ::
  "transport \<Rightarrow> message \<Rightarrow> string \<Rightarrow> int \<Rightarrow> world \<Rightarrow> int \<times> world" where
  \<comment> \<open>lines 150-169, \<open>for attempt in range(max_retries)\<close> from \<open>attempt\<close> on, with the
      two statements after the loop\<close>
  "testing_send_attempts tr m recipient attempt w =
     (if attempt < max_retries then
        (case send_email tr m w of
           (None, w1) \<Rightarrow> (1, print_line (LogEmailSent recipient) w1)
         | (Some e, w1) \<Rightarrow>
             testing_send_attempts tr m recipient (attempt + 1)
               (print_line (LogAttemptFailed (attempt + 1) recipient e) w1))
      else (0, print_line (LogAllFailed max_retries recipient) w))"
  by pat_completeness auto
termination
  by (relation "measure (\<lambda>(tr, m, recipient, attempt, w). nat (max_retries - attempt))") auto

declare testing_send_attempts.simps [simp del]

definition consolidated_message :: "string \<Rightarrow> key_info list \<Rightarrow> string \<Rightarrow> message" where
  \<comment> \<open>the arguments of \<open>ses.send_email\<close>, lines 152-162\<close>
  "consolidated_message recipient key_data sender =
     \<lparr>source = sender, to_addresses = [recipient], subject = testing_subject,
      text_data = testing_text_body key_data,
      html_data = testing_html_body (table_rows_html_from 1 key_data)\<rparr>"

definition send_consolidated_email ::
  "transport \<Rightarrow> string \<Rightarrow> key_info list \<Rightarrow> string \<Rightarrow> world \<Rightarrow> int \<times> world" where
  "send_consolidated_email tr recipient key_data sender w =
     testing_send_attempts tr (consolidated_message recipient key_data sender) recipient 0 w"

fun testing_send_all :: "transport \<Rightarrow> bundles \<Rightarrow> int \<Rightarrow> world \<Rightarrow> int \<times> world" where
  \<comment> \<open>lines 74-79, \<open>for recipient, keys in recipient_keys.items()\<close>;
      \<open>send_consolidated_email\<close> raises nothing, so the \<open>except\<close> clauses of lines 78
      and 83 have no case\<close>
  "testing_send_all tr [] notifications_sent w = (notifications_sent, w)"
| "testing_send_all tr ((recipient, keys) # rest) notifications_sent w =
     (case send_consolidated_email tr recipient keys testing_sender_email
             (print_line (LogSending recipient (length keys)) w) of
        (sent, w1) \<Rightarrow> testing_send_all tr rest (notifications_sent + sent) w1)"

definition testing_try_block ::
  "transport \<Rightarrow> manifest \<Rightarrow> date \<Rightarrow> world \<Rightarrow> (exn + unit) \<times> world" where
  \<comment> \<open>lines 17-84, the body of the outer \<open>try\<close>\<close>
  "testing_try_block tr fetch today w =
     (case fetch of
        Inl e \<Rightarrow> (Inl e, w)
      | Inr csv_reader \<Rightarrow>
          let w1 = print_line (LogColumns (fieldnames csv_reader)) w;
              w2 = print_line (LogToday today) w1
          in (case testing_process_rows today (rows csv_reader)
                     (\<lparr>keys_processed = 0, recipient_keys = []\<rparr>, w2) of
                (agg, w3) \<Rightarrow>
                  (case failure csv_reader of
                     Some e \<Rightarrow> (Inl e, w3)
                   | None \<Rightarrow>
                       (case testing_send_all tr (recipient_keys agg) 0 w3 of
                          (notifications_sent, w4) \<Rightarrow>
                            (Inr (),
                             print_line
                               (LogProcessedSent (keys_processed agg) notifications_sent) w4)))))"

definition lambda_handler_testing ::
  "environment \<Rightarrow> transport \<Rightarrow> manifest \<Rightarrow> date \<Rightarrow> world \<Rightarrow> (exn + unit) \<times> world" where
  \<comment> \<open>lines 6-87: the two clients, built outside the \<open>try\<close>, then the \<open>try\<close> with its
      \<open>except Exception\<close> clause, after which the handler returns \<open>None\<close>. \<open>Inl e\<close> is the
      exception \<open>e\<close> leaving the handler\<close>
  "lambda_handler_testing env tr fetch today w =
     (case boto3_clients env of
        Some e \<Rightarrow> (Inl e, w)
      | None \<Rightarrow>
          (case testing_try_block tr fetch today w of
             (Inr u, w1) \<Rightarrow> (Inr (), w1)
           | (Inl e, w1) \<Rightarrow> (Inr (), print_line (LogFatal e) w1)))"

section \<open>Reading the bundles\<close>




section \<open>Column resolution as the specification words it\<close>

definition first_nonempty :: "(string \<times> string option) list \<Rightarrow> string list \<Rightarrow> string option" where
  \<comment> \<open>the specification's rule, to compare the handlers with: try the aliases in order and
      take the first that is present with a non-empty text; \<open>None\<close> when there is none\<close>
  "first_nonempty d aliases =
     (case filter truthy (map (dict_get d) aliases) of
        [] \<Rightarrow> None
      | v # vs \<Rightarrow> v)"


section \<open>Example inputs\<close>

definition now_10am :: datetime where
  \<comment> \<open>a value of \<open>datetime.datetime.now()\<close>: 1 January 2024, 10:00\<close>
  "now_10am = \<lparr>year = 2024, month = 1, day = 1, hour = 10, minute = 0, second = 0,
                microsecond = 0\<rparr>"

definition today_1jan :: date where
  \<comment> \<open>the value of \<open>datetime.date.today()\<close> on the same day\<close>
  "today_1jan = \<lparr>year = 2024, month = 1, day = 1\<rparr>"

definition example_row :: "string \<Rightarrow> string \<Rightarrow> string \<Rightarrow> row" where
  \<comment> \<open>a data row under the header \<open>GPG_Private_Key,GPG_Key_Expiry,PIC_Email\<close>\<close>
  "example_row key expiry emails =
     \<lparr>cells = [(''GPG_Private_Key'', Some key), (''GPG_Key_Expiry'', Some expiry),
               (''PIC_Email'', Some emails)],
      restkey = None\<rparr>"

definition example_key :: "string \<Rightarrow> string \<Rightarrow> int \<Rightarrow> key_info" where
  \<comment> \<open>the entry the consolidated handler files for such a row, which has no feed name\<close>
  "example_key key expiry days_left =
     \<lparr>feed_name = ''unknown'', key_name = key, expiry_date = expiry,
      days_until_expiry = days_left\<rparr>"

definition no_stats :: stats where
  "no_stats = \<lparr>processed = 0, notified = 0, errors = 0\<rparr>"

definition no_keys :: aggregate where
  "no_keys = \<lparr>keys_processed = 0, recipient_keys = []\<rparr>"

definition quiet :: world where
  "quiet = \<lparr>attempts = [], stdout = []\<rparr>"

definition clients_built :: environment where
  "clients_built = \<lparr>s3_client = None, ses_client = None\<rparr>"

definition no_region :: environment where
  \<comment> \<open>no region is configured: the first call raises\<close>
  "no_region =
     \<lparr>s3_client = Some (External ''You must specify a region.''), ses_client = None\<rparr>"

definition transport_up :: transport where
  "transport_up = (\<lambda>n m. None)"

definition transport_down :: transport where
  "transport_down = (\<lambda>n m. Some (External ''down''))"


section \<open>Facts about the primitives\<close>

lemmas text_defs = strip_def isspace_def upper_def upper_char_def lower_letters_def
  upper_letters_def is_digit_def digit_value_def py_int_def

lemmas strptime_defs = strptime_def match_day_def match_month_def match_year_def valid_date_def
  days_in_month_def is_leap_def

lemmas date_defs = days_before_month_def days_before_year_def is_leap_def ymd2ord_def
  toordinal_def date_of_def make_timedelta_def datetime_sub_def date_sub_def Let_def

lemmas dict_defs = dict_get_def dict_get_default_def truthy_def py_or_def or_str_def
  email_column_def

lemmas gpg_defs = gpg_key_name_def gpg_expiry_date_str_def gpg_days_until_expiry_def
  gpg_notifiable_def gpg_recipients_def gpg_error_key_def gpg_row_body_def gpg_process_row_def
  gpg_try_block_def lambda_handler_gpg_def boto3_clients_def send_formatted_email_def
  send_email_def print_line_def max_retries_def

lemmas testing_defs = strip_keys_def stripped_cells_def testing_key_name_def testing_feed_name_def
  testing_expiry_date_str_def testing_days_until_expiry_def testing_notifiable_def
  testing_row_body_def testing_error_key_def testing_process_row_def testing_try_block_def
  lambda_handler_testing_def boto3_clients_def send_consolidated_email_def send_email_def
  print_line_def max_retries_def

lemma strip_surrounded:
  assumes "list_all isspace pre" and "list_all isspace post"
    and "core \<noteq> []" and "\<not> isspace (hd core)" and "\<not> isspace (last core)"
  shows "strip (pre @ core @ post) = core"
proof -
  from assms(1) have "dropWhile isspace (pre @ core @ post) = dropWhile isspace (core @ post)"
    by (simp add: list_all_iff)
  also from assms(3,4) have "\<dots> = core @ post"
    by (cases core) simp_all
  finally have b: "dropWhile isspace (pre @ core @ post) = core @ post" .
  from assms(2) have c1: "dropWhile isspace (rev post @ rev core) = dropWhile isspace (rev core)"
    using dropWhile_append2 [of "rev post" isspace "rev core"] by (simp add: list_all_iff)
  obtain ys y where core: "core = ys @ [y]"
    using assms(3) by (cases core rule: rev_cases) auto
  with assms(5) have "\<not> isspace y" by simp
  then have c2: "dropWhile isspace (rev core) = rev core"
    by (simp add: core)
  show ?thesis
    unfolding strip_def b by (simp add: c1 c2)
qed

lemma str_split_no_sep: "sep \<notin> set s \<Longrightarrow> str_split sep s = [s]"
  by (induction s) auto

lemma strptime_no_hyphen: "CHR ''-'' \<notin> set s \<Longrightarrow> strptime s = Inl ValueError"
  by (simp add: strptime_def str_split_no_sep)

lemma strptime_midnight:
  "strptime s = Inr e \<Longrightarrow> hour e = 0 \<and> minute e = 0 \<and> second e = 0 \<and> microsecond e = 0"
  by (auto simp: strptime_def split: list.splits if_splits)

lemma strptime_error: "strptime s = Inl e \<Longrightarrow> e = ValueError"
  by (auto simp: strptime_def split: list.splits if_splits)

lemma div_between:
  fixes a :: int
  assumes "- b \<le> a" "a \<le> 0" "0 < b"
  shows "a div b = 0 \<or> a div b = - 1"
proof -
  have "(- 1 * b) div b = - 1"
    using assms(3) by (subst nonzero_mult_div_cancel_right) auto
  then have low: "(- b) div b = - 1" by simp
  have "(- b) div b \<le> a div b" using assms(1,3) by (rule zdiv_mono1)
  moreover have "a div b \<le> 0 div b" using assms(2,3) by (rule zdiv_mono1)
  ultimately show ?thesis using low by auto
qed

lemma gpg_days_bounds:
  assumes "valid_time today"
    and "hour e = 0" "minute e = 0" "second e = 0" "microsecond e = 0"
  shows "gpg_days_until_expiry e today = toordinal e - toordinal today
           \<or> gpg_days_until_expiry e today = toordinal e - toordinal today - 1"
proof -
  define S where "S = second today + minute today * 60 + hour today * 3600"
  define U where "U = microsecond today"
  have S: "0 \<le> S" "S \<le> 86399" and U: "0 \<le> U" "U < 1000000"
    using assms(1) by (auto simp: valid_time_def S_def U_def)
  have "(- U) div 1000000 = 0 \<or> (- U) div 1000000 = - 1"
    using U by (intro div_between) auto
  then have "- 86400 \<le> - S + (- U) div 1000000" "- S + (- U) div 1000000 \<le> 0"
    using S by auto
  then have "(- S + (- U) div 1000000) div 86400 = 0 \<or> (- S + (- U) div 1000000) div 86400 = - 1"
    by (intro div_between) auto
  moreover have "gpg_days_until_expiry e today =
      toordinal e - toordinal today + (- S + (- U) div 1000000) div 86400"
    using assms(2-5)
    by (simp add: gpg_days_until_expiry_def datetime_sub_def make_timedelta_def S_def U_def
          Let_def)
  ultimately show ?thesis by auto
qed

lemma testing_days_exact: "testing_days_until_expiry e today = toordinal e - toordinal today"
  by (simp add: testing_days_until_expiry_def date_sub_def make_timedelta_def)

lemma toordinal_date_of: "toordinal (date_of dt) = toordinal dt"
  by (simp add: toordinal_def date_of_def)

lemmas example_defs = now_10am_def today_1jan_def example_row_def no_stats_def no_keys_def
  quiet_def transport_up_def transport_down_def clients_built_def no_region_def
  example_key_def


section \<open>Sending with retries\<close>

lemma gpg_send_accepted:
  assumes "tr (length (attempts w)) m = None"
  shows "gpg_send_attempts tr m k 0 w =
    (Inr (), print_line (LogSent k (to_addresses m)) (w\<lparr>attempts := attempts w @ [m]\<rparr>))"
  by (subst gpg_send_attempts.simps) (simp add: send_email_def max_retries_def assms)

lemma attempts_print_line: "attempts (print_line e w) = attempts w"
  by (simp add: print_line_def)

lemma stdout_print_line: "stdout (print_line e w) = stdout w @ [e]"
  by (simp add: print_line_def)

lemma gpg_send_refused:
  assumes "\<And>n. tr n m \<noteq> None"
  shows "\<exists>e. gpg_send_attempts tr m k 0 w =
    (Inl e, w\<lparr>attempts := attempts w @ [m, m, m],
              stdout := stdout w @ [LogRetry 1 k, LogRetry 2 k, LogGaveUp 3 k]\<rparr>)"
proof -
  obtain e1 e2 e3 where
    "tr (length (attempts w)) m = Some e1" "tr (Suc (length (attempts w))) m = Some e2"
    "tr (Suc (Suc (length (attempts w)))) m = Some e3"
    using assms by (meson option.exhaust)
  then have "gpg_send_attempts tr m k 0 w =
    (Inl e3, w\<lparr>attempts := attempts w @ [m, m, m],
               stdout := stdout w @ [LogRetry 1 k, LogRetry 2 k, LogGaveUp 3 k]\<rparr>)"
    by (simp add: gpg_send_attempts.simps [of _ _ _ 0] gpg_send_attempts.simps [of _ _ _ 1]
          gpg_send_attempts.simps [of _ _ _ 2] send_email_def max_retries_def print_line_def)
  then show ?thesis ..
qed

lemma testing_send_refused:
  assumes "\<And>n. tr n m \<noteq> None"
  shows "\<exists>e1 e2 e3. testing_send_attempts tr m r 0 w =
    (0, w\<lparr>attempts := attempts w @ [m, m, m],
           stdout := stdout w @ [LogAttemptFailed 1 r e1, LogAttemptFailed 2 r e2,
                                 LogAttemptFailed 3 r e3, LogAllFailed 3 r]\<rparr>)"
proof -
  obtain e1 e2 e3 where
    "tr (length (attempts w)) m = Some e1" "tr (Suc (length (attempts w))) m = Some e2"
    "tr (Suc (Suc (length (attempts w)))) m = Some e3"
    using assms by (meson option.exhaust)
  then have "testing_send_attempts tr m r 0 w =
    (0, w\<lparr>attempts := attempts w @ [m, m, m],
           stdout := stdout w @ [LogAttemptFailed 1 r e1, LogAttemptFailed 2 r e2,
                                 LogAttemptFailed 3 r e3, LogAllFailed 3 r]\<rparr>)"
    by (simp add: testing_send_attempts.simps [of _ _ _ 0]
          testing_send_attempts.simps [of _ _ _ 1] testing_send_attempts.simps [of _ _ _ 2]
          testing_send_attempts.simps [of _ _ _ 3] send_email_def max_retries_def
          print_line_def)
  then show ?thesis by blast
qed


lemma testing_send_all_refused:
  assumes "\<And>n m. tr n m \<noteq> None"
  shows "fst (testing_send_all tr bundles n w) = n \<and>
    length (attempts (snd (testing_send_all tr bundles n w))) =
      length (attempts w) + 3 * length bundles"
proof (induction bundles arbitrary: n w)
  case Nil
  show ?case by simp
next
  case (Cons b bundles)
  obtain r keys where b: "b = (r, keys)" by (cases b)
  let ?m = "consolidated_message r keys testing_sender_email"
  let ?w = "print_line (LogSending r (length keys)) w"
  obtain e1 e2 e3 where s: "testing_send_attempts tr ?m r 0 ?w =
    (0, ?w\<lparr>attempts := attempts ?w @ [?m, ?m, ?m],
            stdout := stdout ?w @ [LogAttemptFailed 1 r e1, LogAttemptFailed 2 r e2,
                                   LogAttemptFailed 3 r e3, LogAllFailed 3 r]\<rparr>)"
    using testing_send_refused [of tr ?m r ?w] assms by blast
  show ?case
    unfolding b
    by (simp add: send_consolidated_email_def s Cons.IH attempts_print_line)
qed


section \<open>What one row does\<close>

lemma gpg_row_no_expiry:
  assumes "\<not> truthy (gpg_expiry_date_str row)"
  shows "gpg_process_row tr now row (st, w) =
    (st\<lparr>processed := processed st + 1\<rparr>,
     print_line (LogNoExpiry (gpg_key_name row)) (print_line (LogRow row) w))"
  using assms by (simp add: gpg_process_row_def gpg_row_body_def)

lemma gpg_row_unparseable:
  assumes "gpg_expiry_date_str row = Some s" and "s \<noteq> []" and "strptime s = Inl e"
  shows "gpg_process_row tr now row (st, w) =
    (st\<lparr>processed := processed st + 1, errors := errors st + 1\<rparr>,
     print_line (LogRowError (gpg_error_key row) e) (print_line (LogRow row) w))"
  using assms by (simp add: gpg_process_row_def gpg_row_body_def truthy_def)

lemma gpg_row_not_due:
  assumes "gpg_expiry_date_str row = Some s" and "s \<noteq> []" and "strptime s = Inr expiry"
    and "\<not> gpg_notifiable (gpg_days_until_expiry expiry now)"
  shows "gpg_process_row tr now row (st, w) =
    (st\<lparr>processed := processed st + 1\<rparr>,
     print_line (LogDays (gpg_key_name row) s (gpg_days_until_expiry expiry now))
       (print_line (LogRow row) w))"
  using assms by (simp add: gpg_process_row_def gpg_row_body_def truthy_def Let_def)

lemma gpg_row_due:
  assumes "gpg_expiry_date_str row = Some s" and "s \<noteq> []" and "strptime s = Inr expiry"
    and "gpg_notifiable (gpg_days_until_expiry expiry now)"
    and "email_column (cells row) = Some field"
  shows "gpg_process_row tr now row (st, w) =
    (case send_formatted_email tr gpg_sender_email (gpg_recipients field) (gpg_key_name row) s
            (gpg_days_until_expiry expiry now)
            (print_line (LogDays (gpg_key_name row) s (gpg_days_until_expiry expiry now))
               (print_line (LogRow row) w)) of
       (Inl e, w2) \<Rightarrow>
         (st\<lparr>processed := processed st + 1, errors := errors st + 1\<rparr>,
          print_line (LogRowError (gpg_error_key row) e) w2)
     | (Inr u, w2) \<Rightarrow>
         (st\<lparr>processed := processed st + 1, notified := notified st + 1\<rparr>,
          print_line (LogNotified (gpg_key_name row) (gpg_recipients field)) w2))"
  using assms
  by (simp add: gpg_process_row_def gpg_row_body_def truthy_def Let_def
        split: prod.splits sum.splits)

lemma testing_row_failed_strip:
  assumes "strip_keys row = Inl e"
  shows "testing_process_row today row (agg, w) =
    (agg, print_line (LogRowError (Some (testing_error_key row)) e) (print_line (LogRow row) w))"
  using assms by (simp add: testing_process_row_def testing_row_body_def)

lemma testing_row_no_expiry:
  assumes "strip_keys row = Inr d" and "\<not> truthy (testing_expiry_date_str d)"
  shows "testing_process_row today row (agg, w) =
    (agg, print_line (LogNoValidExpiry (testing_key_name d)) (print_line (LogRow row) w))"
  using assms by (simp add: testing_process_row_def testing_row_body_def Let_def)

lemma testing_row_na:
  assumes "strip_keys row = Inr d" and "testing_expiry_date_str d = Some s" and "s \<noteq> []"
    and "upper (strip s) = ''N/A''"
  shows "testing_process_row today row (agg, w) =
    (agg, print_line (LogNoValidExpiry (testing_key_name d)) (print_line (LogRow row) w))"
  using assms by (simp add: testing_process_row_def testing_row_body_def truthy_def Let_def)

lemma testing_row_unparseable:
  assumes "strip_keys row = Inr d" and "testing_expiry_date_str d = Some s" and "s \<noteq> []"
    and "upper (strip s) \<noteq> ''N/A''" and "strptime s = Inl e"
  shows "testing_process_row today row (agg, w) =
    (agg, print_line (LogRowError (Some (testing_error_key row)) e) (print_line (LogRow row) w))"
  using assms by (simp add: testing_process_row_def testing_row_body_def truthy_def Let_def)


lemma testing_row_due:
  assumes "strip_keys row = Inr d" and "testing_expiry_date_str d = Some s" and "s \<noteq> []"
    and "upper (strip s) \<noteq> ''N/A''" and "strptime s = Inr parsed"
    and "testing_notifiable (testing_days_until_expiry (date_of parsed) today)"
    and "email_column d = Some field"
  shows "testing_process_row today row (agg, w) =
    (agg\<lparr>keys_processed := keys_processed agg + 1,
         recipient_keys :=
           (if strip field \<noteq> [] then
              add_recipients
                \<lparr>feed_name = testing_feed_name d, key_name = testing_key_name d,
                 expiry_date = s,
                 days_until_expiry = testing_days_until_expiry (date_of parsed) today\<rparr>
                (str_split CHR '','' (strip field)) (recipient_keys agg)
            else recipient_keys agg)\<rparr>,
     print_line (LogDaysLeft (testing_key_name d) (date_of parsed)
                   (testing_days_until_expiry (date_of parsed) today))
       (print_line (LogRow row) w))"
  using assms by (simp add: testing_process_row_def testing_row_body_def truthy_def Let_def)


lemma strip_keys_plain: "restkey row = None \<Longrightarrow> strip_keys row = Inr (stripped_cells row)"
  by (simp add: strip_keys_def)

lemma strip_keys_surplus: "restkey row = Some extra \<Longrightarrow> strip_keys row = Inl AttributeError"
  by (simp add: strip_keys_def)

lemma stripped_cells_example: "stripped_cells (example_row k e m) = cells (example_row k e m)"
  by (simp add: stripped_cells_def example_row_def strip_def isspace_def)

lemma strip_keys_example: "strip_keys (example_row k e m) = Inr (cells (example_row k e m))"
  by (simp add: strip_keys_def stripped_cells_def example_row_def strip_def isspace_def)

lemma example_row_fields:
  "gpg_key_name (example_row ''K1'' e m) = ''K1''"
  "testing_key_name (cells (example_row ''K1'' e m)) = ''K1''"
  "testing_feed_name (cells (example_row k e m)) = ''unknown''"
  "gpg_error_key (example_row k e m) = Some k"
  "email_column (cells (example_row k e m)) = (if m \<noteq> [] then Some m else Some [])"
  "e \<noteq> [] \<Longrightarrow> gpg_expiry_date_str (example_row k e m) = Some e"
  "e \<noteq> [] \<Longrightarrow> testing_expiry_date_str (cells (example_row k e m)) = Some e"
  by (simp_all add: gpg_key_name_def testing_key_name_def testing_feed_name_def gpg_error_key_def
        gpg_expiry_date_str_def testing_expiry_date_str_def dict_defs example_row_def)

lemma testing_process_row_attempts:
  "attempts (snd (testing_process_row today row (agg, w))) = attempts w"
  by (auto simp: testing_process_row_def testing_row_body_def Let_def attempts_print_line
      split: sum.splits option.splits)

lemma testing_process_rows_attempts:
  "attempts (snd (testing_process_rows today rs aw)) = attempts (snd aw)"
proof (induction rs arbitrary: aw)
  case Nil
  show ?case by simp
next
  case (Cons row rs)
  obtain agg w where aw: "aw = (agg, w)" by (cases aw)
  show ?case
    by (simp add: Cons.IH aw testing_process_row_attempts)
qed


lemma strptime_15: "strptime ''15-01-2024'' =
    Inr \<lparr>year = 2024, month = 1, day = 15, hour = 0, minute = 0, second = 0, microsecond = 0\<rparr>"
  by (simp add: strptime_defs text_defs)

section \<open>Day counting and the two notification policies\<close>

text \<open>
  Claim C1. A key whose expiry date is exactly 14 calendar days after today's date should
  be notifiable under the exact-or-soon policy, the day count being taken on the dates
  alone. The single-key handler subtracts \<open>datetime.now()\<close>, which carries the time of
  day, from the expiry date's midnight: run on 01-01-2024 at 10:00 on a manifest whose
  only key expires on 15-01-2024, fourteen calendar days later, it computes 13 days,
  sends nothing and reports \<open>Processed 1 keys, sent 0 notifications\<close>.
\<close>

theorem gpg_expiry_in_14_days_not_notified:
  "strptime ''15-01-2024'' =
     Inr \<lparr>year = 2024, month = 1, day = 15, hour = 0, minute = 0, second = 0, microsecond = 0\<rparr>
   \<and> toordinal \<lparr>year = 2024, month = 1, day = 15, hour = 0, minute = 0, second = 0,
                  microsecond = 0\<rparr>
       = toordinal \<lparr>year = 2024, month = 1, day = 1, hour = 10, minute = 0, second = 0,
                    microsecond = 0\<rparr> + 14
   \<and> gpg_days_until_expiry
         \<lparr>year = 2024, month = 1, day = 15, hour = 0, minute = 0, second = 0, microsecond = 0\<rparr>
         \<lparr>year = 2024, month = 1, day = 1, hour = 10, minute = 0, second = 0, microsecond = 0\<rparr>
       = 13
   \<and> lambda_handler_gpg \<lparr>s3_client = None, ses_client = None\<rparr> (\<lambda>n m. None)
        (Inr \<lparr>fieldnames = Some [''GPG_Private_Key'', ''GPG_Key_Expiry'', ''PIC_Email''],
              rows = [\<lparr>cells = [(''GPG_Private_Key'', Some ''K1''),
                                (''GPG_Key_Expiry'', Some ''15-01-2024''),
                                (''PIC_Email'', Some ''r@x.com'')],
                       restkey = None\<rparr>],
              failure = None\<rparr>)
        \<lparr>year = 2024, month = 1, day = 1, hour = 10, minute = 0, second = 0, microsecond = 0\<rparr>
        \<lparr>attempts = [], stdout = []\<rparr>
       = (Inr \<lparr>statusCode = 200, body = ProcessedBody 1 0\<rparr>,
          \<lparr>attempts = [],
           stdout = [LogColumns (Some [''GPG_Private_Key'', ''GPG_Key_Expiry'', ''PIC_Email'']),
                     LogToday \<lparr>year = 2024, month = 1, day = 1\<rparr>,
                     LogRow \<lparr>cells = [(''GPG_Private_Key'', Some ''K1''),
                                      (''GPG_Key_Expiry'', Some ''15-01-2024''),
                                      (''PIC_Email'', Some ''r@x.com'')],
                             restkey = None\<rparr>,
                     LogDays ''K1'' ''15-01-2024'' 13,
                     LogSummary 1 0 0]\<rparr>)"
  by (simp add: strptime_15 gpg_defs dict_defs date_defs)


text \<open>
  Claim C7. A key whose expiry date is exactly 5 days after today is not notifiable under
  the exact-or-soon policy of the single-key handler, whatever the time of day of the run
  (its day count is then 4 or 5), and is notifiable under the window policy of the
  consolidated handler (its day count is 5).
\<close>

theorem expiry_in_5_days:
  assumes "valid_time now" and "strptime s = Inr expiry"
    and "toordinal expiry = toordinal now + 5"
  shows "\<not> gpg_notifiable (gpg_days_until_expiry expiry now) \<and>
         testing_days_until_expiry (date_of expiry) (date_of now) = 5 \<and>
         testing_notifiable (testing_days_until_expiry (date_of expiry) (date_of now))"
proof -
  from assms(2) have "hour expiry = 0" "minute expiry = 0" "second expiry = 0"
    "microsecond expiry = 0"
    using strptime_midnight by blast+
  with assms(1) have "gpg_days_until_expiry expiry now = toordinal expiry - toordinal now
      \<or> gpg_days_until_expiry expiry now = toordinal expiry - toordinal now - 1"
    by (intro gpg_days_bounds)
  with assms(3) have "gpg_days_until_expiry expiry now = 5 \<or> gpg_days_until_expiry expiry now = 4"
    by auto
  then have "\<not> gpg_notifiable (gpg_days_until_expiry expiry now)"
    by (auto simp: gpg_notifiable_def)
  moreover from assms(3) have "testing_days_until_expiry (date_of expiry) (date_of now) = 5"
    by (simp add: testing_days_exact toordinal_date_of)
  ultimately show ?thesis
    by (simp add: testing_notifiable_def)
qed

lemma strptime_6jan: "strptime ''06-01-2024'' =
    Inr \<lparr>year = 2024, month = 1, day = 6, hour = 0, minute = 0, second = 0, microsecond = 0\<rparr>"
  by (simp add: strptime_defs text_defs)

theorem expiry_in_5_days_witness:
  "valid_time now_10am \<and>
   strptime ''06-01-2024'' =
     Inr \<lparr>year = 2024, month = 1, day = 6, hour = 0, minute = 0, second = 0, microsecond = 0\<rparr> \<and>
   toordinal \<lparr>year = 2024, month = 1, day = 6, hour = 0, minute = 0, second = 0,
               microsecond = 0\<rparr> = toordinal now_10am + 5 \<and>
   gpg_days_until_expiry
     \<lparr>year = 2024, month = 1, day = 6, hour = 0, minute = 0, second = 0, microsecond = 0\<rparr>
     now_10am = 4 \<and>
   \<not> gpg_notifiable (gpg_days_until_expiry
     \<lparr>year = 2024, month = 1, day = 6, hour = 0, minute = 0, second = 0, microsecond = 0\<rparr>
     now_10am) \<and>
   testing_notifiable (testing_days_until_expiry
     (date_of \<lparr>year = 2024, month = 1, day = 6, hour = 0, minute = 0, second = 0,
               microsecond = 0\<rparr>) (date_of now_10am))"
proof -
  have v: "valid_time now_10am"
    by (simp add: valid_time_def now_10am_def)
  have o: "toordinal \<lparr>year = 2024, month = 1, day = 6, hour = 0, minute = 0, second = 0,
      microsecond = 0\<rparr> = toordinal now_10am + 5"
    by (simp add: date_defs now_10am_def)
  have d: "gpg_days_until_expiry
     \<lparr>year = 2024, month = 1, day = 6, hour = 0, minute = 0, second = 0, microsecond = 0\<rparr>
     now_10am = 4"
    by (simp add: gpg_days_until_expiry_def date_defs now_10am_def)
  note t = expiry_in_5_days [OF v strptime_6jan o]
  from t have a: "\<not> gpg_notifiable (gpg_days_until_expiry
     \<lparr>year = 2024, month = 1, day = 6, hour = 0, minute = 0, second = 0, microsecond = 0\<rparr>
     now_10am)"
    by (rule conjunct1)
  from t have b: "testing_notifiable (testing_days_until_expiry
     (date_of \<lparr>year = 2024, month = 1, day = 6, hour = 0, minute = 0, second = 0,
               microsecond = 0\<rparr>) (date_of now_10am))"
    by (elim conjE)
  show ?thesis
    using v strptime_6jan o d a b by (intro conjI)
qed


section \<open>Rows without a usable expiry date\<close>

lemma upper_na:
  "upper ''N/A'' = ''N/A''" "upper ''N/a'' = ''N/A''" "upper ''n/A'' = ''N/A''"
  "upper ''n/a'' = ''N/A''"
  by (simp_all add: upper_def upper_char_def lower_letters_def upper_letters_def)

lemma na_core_facts:
  assumes "core \<in> set [''N/A'', ''N/a'', ''n/A'', ''n/a'']"
  shows "core \<noteq> []" "\<not> isspace (hd core)" "\<not> isspace (last core)"
    "upper core = ''N/A''" "CHR ''-'' \<notin> set core"
proof -
  from assms consider "core = ''N/A''" | "core = ''N/a''" | "core = ''n/A''" | "core = ''n/a''"
    by auto
  then have "core \<noteq> [] \<and> \<not> isspace (hd core) \<and> \<not> isspace (last core) \<and>
    upper core = ''N/A'' \<and> CHR ''-'' \<notin> set core"
    by cases (simp_all add: isspace_def upper_na)
  then show "core \<noteq> []" "\<not> isspace (hd core)" "\<not> isspace (last core)"
    "upper core = ''N/A''" "CHR ''-'' \<notin> set core"
    by blast+
qed

lemma hyphen_not_space: "\<not> isspace CHR ''-''"
  by (simp add: isspace_def)

lemma isspace_not_hyphen: "list_all isspace ws \<Longrightarrow> CHR ''-'' \<notin> set ws"
  using hyphen_not_space by (auto simp: list_all_iff)

lemma na_text_facts:
  assumes "list_all isspace pre" "list_all isspace post"
    and "core \<in> set [''N/A'', ''N/a'', ''n/A'', ''n/a'']"
  shows "pre @ core @ post \<noteq> []" "upper (strip (pre @ core @ post)) = ''N/A''"
    "strptime (pre @ core @ post) = Inl ValueError"
proof -
  note c = na_core_facts [OF assms(3)]
  show "pre @ core @ post \<noteq> []" using c(1) by simp
  show "upper (strip (pre @ core @ post)) = ''N/A''"
    using strip_surrounded [OF assms(1,2) c(1,2,3)] c(4) by simp
  have "CHR ''-'' \<notin> set (pre @ core @ post)"
    using isspace_not_hyphen [OF assms(1)] isspace_not_hyphen [OF assms(2)] c(5) by simp
  then show "strptime (pre @ core @ post) = Inl ValueError"
    by (rule strptime_no_hyphen)
qed

lemma testing_skips_na:
  assumes "list_all isspace pre" and "list_all isspace post"
    and "core \<in> set [''N/A'', ''N/a'', ''n/A'', ''n/a'']"
    and "restkey row = None"
    and "testing_expiry_date_str (stripped_cells row) = Some (pre @ core @ post)"
  shows "testing_process_row today row (agg, w) =
    (agg, print_line (LogNoValidExpiry (testing_key_name (stripped_cells row)))
            (print_line (LogRow row) w))"
  using testing_row_na [OF strip_keys_plain [OF assms(4)] assms(5)]
    na_text_facts(1,2) [OF assms(1-3)]
  by simp

lemma gpg_na_is_error:
  assumes "list_all isspace pre" and "list_all isspace post"
    and "core \<in> set [''N/A'', ''N/a'', ''n/A'', ''n/a'']"
    and "gpg_expiry_date_str row = Some (pre @ core @ post)"
  shows "gpg_process_row tr now row (st, w) =
    (st\<lparr>processed := processed st + 1, errors := errors st + 1\<rparr>,
     print_line (LogRowError (gpg_error_key row) ValueError) (print_line (LogRow row) w))"
  using gpg_row_unparseable [OF assms(4)] na_text_facts(1,3) [OF assms(1-3)]
  by simp

text \<open>
  Claim C2. A row whose expiry field is the text \<open>N/A\<close> should be skipped with a log
  line and without an error. The consolidated handler has the guard of line 44 for it and
  does so. The single-key handler has no such guard: on the row with the expiry field
  \<open>N/A\<close> it lets \<open>strptime\<close> raise, prints the error and counts the row in \<open>errors\<close>.
  The consolidated handler, too, takes its error path for such a row when the row has
  more values than the header: line 35 raises before the guard is reached.
\<close>

theorem gpg_counts_na_as_error:
  "gpg_expiry_date_str (example_row ''K1'' ''N/A'' ''r@x.com'') = Some ''N/A'' \<and>
   gpg_process_row transport_up now_10am (example_row ''K1'' ''N/A'' ''r@x.com'')
       (no_stats, quiet) =
     (\<lparr>processed = 1, notified = 0, errors = 1\<rparr>,
      \<lparr>attempts = [],
       stdout = [LogRow (example_row ''K1'' ''N/A'' ''r@x.com''),
                 LogRowError (Some ''K1'') ValueError]\<rparr>) \<and>
   testing_process_row today_1jan (example_row ''K1'' ''N/A'' ''r@x.com'') (no_keys, quiet) =
     (no_keys,
      \<lparr>attempts = [],
       stdout = [LogRow (example_row ''K1'' ''N/A'' ''r@x.com''), LogNoValidExpiry ''K1'']\<rparr>) \<and>
   testing_process_row today_1jan
       ((example_row ''K1'' ''N/A'' ''r@x.com'')\<lparr>restkey := Some [''more'']\<rparr>)
       (no_keys, quiet) =
     (no_keys,
      \<lparr>attempts = [],
       stdout = [LogRow ((example_row ''K1'' ''N/A'' ''r@x.com'')\<lparr>restkey := Some [''more'']\<rparr>),
                 LogRowError (Some ''K1'') AttributeError]\<rparr>)"
proof -
  have ws: "list_all isspace []" by simp
  have core: "''N/A'' \<in> set [''N/A'', ''N/a'', ''n/A'', ''n/a'']" by simp
  have g: "gpg_expiry_date_str (example_row ''K1'' ''N/A'' ''r@x.com'') = Some ''N/A''"
    and t: "testing_expiry_date_str (stripped_cells (example_row ''K1'' ''N/A'' ''r@x.com''))
      = Some ''N/A''"
    by (simp_all add: example_row_fields stripped_cells_example)
  have r: "restkey (example_row ''K1'' ''N/A'' ''r@x.com'') = None"
    by (simp add: example_row_def)
  have a: "gpg_process_row transport_up now_10am (example_row ''K1'' ''N/A'' ''r@x.com'')
       (no_stats, quiet) =
     (\<lparr>processed = 1, notified = 0, errors = 1\<rparr>,
      \<lparr>attempts = [],
       stdout = [LogRow (example_row ''K1'' ''N/A'' ''r@x.com''),
                 LogRowError (Some ''K1'') ValueError]\<rparr>)"
    using gpg_na_is_error [of "[]" "[]" "''N/A''", OF ws ws core]
    by (simp add: g example_row_fields no_stats_def quiet_def print_line_def)
  have b: "testing_process_row today_1jan (example_row ''K1'' ''N/A'' ''r@x.com'')
       (no_keys, quiet) =
     (no_keys,
      \<lparr>attempts = [],
       stdout = [LogRow (example_row ''K1'' ''N/A'' ''r@x.com''), LogNoValidExpiry ''K1'']\<rparr>)"
    using testing_skips_na [of "[]" "[]" "''N/A''", OF ws ws core r]
    by (simp add: t stripped_cells_example example_row_fields quiet_def print_line_def)
  have k: "testing_error_key ((example_row ''K1'' ''N/A'' ''r@x.com'')\<lparr>restkey := Some [''more'']\<rparr>)
      = ''K1''"
    by (simp add: testing_error_key_def strip_keys_def example_row_def dict_defs)
  have c: "testing_process_row today_1jan
       ((example_row ''K1'' ''N/A'' ''r@x.com'')\<lparr>restkey := Some [''more'']\<rparr>)
       (no_keys, quiet) =
     (no_keys,
      \<lparr>attempts = [],
       stdout = [LogRow ((example_row ''K1'' ''N/A'' ''r@x.com'')\<lparr>restkey := Some [''more'']\<rparr>),
                 LogRowError (Some ''K1'') AttributeError]\<rparr>)"
    by (subst testing_row_failed_strip [OF strip_keys_surplus [of _ "[''more'']"]])
      (simp_all add: k quiet_def print_line_def)
  show ?thesis using g a b c by (intro conjI)
qed


section \<open>Recipient fields\<close>

lemma strptime_16jan: "strptime ''16-01-2024'' =
    Inr \<lparr>year = 2024, month = 1, day = 16, hour = 0, minute = 0, second = 0, microsecond = 0\<rparr>"
  by (simp add: strptime_defs text_defs)

lemma gpg_days_16jan: "gpg_days_until_expiry
    \<lparr>year = 2024, month = 1, day = 16, hour = 0, minute = 0, second = 0, microsecond = 0\<rparr>
    now_10am = 14"
  by (simp add: gpg_days_until_expiry_def date_defs now_10am_def)

lemma testing_days_15jan: "testing_days_until_expiry
    (date_of \<lparr>year = 2024, month = 1, day = 15, hour = 0, minute = 0, second = 0,
              microsecond = 0\<rparr>) today_1jan = 14"
  by (simp add: testing_days_until_expiry_def date_defs today_1jan_def)

lemma str_split_example:
  "str_split CHR '','' ''a@x.com, b@x.com ,'' = [''a@x.com'', '' b@x.com '', []]"
  by simp

lemma strip_examples:
  "strip ''a@x.com'' = ''a@x.com''" "strip '' b@x.com '' = ''b@x.com''" "strip [] = []"
  "strip ''a@x.com, b@x.com ,'' = ''a@x.com, b@x.com ,''"
  by (simp_all add: strip_def isspace_def)

text \<open>
  Claim C3. The recipient field \<open>a@x.com, b@x.com ,\<close> should resolve to exactly the two
  addresses, the empty segment after the last comma dropped. The single-key handler
  (line 65) trims the segments and keeps the empty one: for a key that is due, it calls
  the transport with the three addresses \<open>a@x.com\<close>, \<open>b@x.com\<close> and the empty text. The
  consolidated handler (lines 54-59) drops it, and files the key under the two addresses.
\<close>

theorem gpg_keeps_empty_recipient:
  "gpg_recipients ''a@x.com, b@x.com ,'' = [''a@x.com'', ''b@x.com'', []] \<and>
   map to_addresses
     (attempts (snd (gpg_process_row transport_up now_10am
                       (example_row ''K1'' ''16-01-2024'' ''a@x.com, b@x.com ,'')
                       (no_stats, quiet))))
     = [[''a@x.com'', ''b@x.com'', []]] \<and>
   map fst
     (recipient_keys (fst (testing_process_row today_1jan
                             (example_row ''K1'' ''15-01-2024'' ''a@x.com, b@x.com ,'')
                             (no_keys, quiet))))
     = [''a@x.com'', ''b@x.com'']"
proof -
  have a: "gpg_recipients ''a@x.com, b@x.com ,'' = [''a@x.com'', ''b@x.com'', []]"
    by (simp add: gpg_recipients_def strip_examples)
  have due: "gpg_notifiable (gpg_days_until_expiry
    \<lparr>year = 2024, month = 1, day = 16, hour = 0, minute = 0, second = 0, microsecond = 0\<rparr>
    now_10am)"
    by (simp add: gpg_days_16jan gpg_notifiable_def)
  have gex: "gpg_expiry_date_str (example_row ''K1'' ''16-01-2024'' ''a@x.com, b@x.com ,'')
      = Some ''16-01-2024''"
    and tex: "testing_expiry_date_str
      (cells (example_row ''K1'' ''15-01-2024'' ''a@x.com, b@x.com ,'')) = Some ''15-01-2024''"
    and gem: "email_column (cells (example_row ''K1'' ''16-01-2024'' ''a@x.com, b@x.com ,''))
      = Some ''a@x.com, b@x.com ,''"
    and tem: "email_column (cells (example_row ''K1'' ''15-01-2024'' ''a@x.com, b@x.com ,''))
      = Some ''a@x.com, b@x.com ,''"
    by (simp_all add: example_row_fields)
  have ne: "''16-01-2024'' \<noteq> []" "''15-01-2024'' \<noteq> []" by simp_all
  have b: "map to_addresses
     (attempts (snd (gpg_process_row transport_up now_10am
                       (example_row ''K1'' ''16-01-2024'' ''a@x.com, b@x.com ,'')
                       (no_stats, quiet))))
     = [[''a@x.com'', ''b@x.com'', []]]"
    by (simp add: gpg_row_due [OF gex ne(1) strptime_16jan due gem] a send_formatted_email_def
          formatted_message_def gpg_send_accepted transport_up_def print_line_def quiet_def)
  have na: "upper (strip ''15-01-2024'') \<noteq> ''N/A''"
    by (simp add: strip_def isspace_def upper_def)
  have due': "testing_notifiable (testing_days_until_expiry
    (date_of \<lparr>year = 2024, month = 1, day = 15, hour = 0, minute = 0, second = 0,
              microsecond = 0\<rparr>) today_1jan)"
    by (simp add: testing_days_15jan testing_notifiable_def)
  have c: "map fst
     (recipient_keys (fst (testing_process_row today_1jan
                             (example_row ''K1'' ''15-01-2024'' ''a@x.com, b@x.com ,'')
                             (no_keys, quiet))))
     = [''a@x.com'', ''b@x.com'']"
    by (simp add: testing_row_due [OF strip_keys_example tex ne(2) na strptime_15 due' tem]
          example_row_fields strip_examples str_split_example no_keys_def
          del: str_split.simps)
  show ?thesis using a b c by (intro conjI)
qed


text \<open>
  Claim C5. Let the transport refuse every call. Then \<open>send_formatted_email\<close> makes exactly
  three calls and raises; the single-key handler's row loop catches the exception, counts
  the row in \<open>errors\<close> and not in \<open>notified\<close>. \<open>send_consolidated_email\<close> makes exactly
  three calls and returns 0; the consolidated handler adds that 0 to its count and goes on
  to the next recipient, so that a run over any bundles counts no notification and makes
  three calls per recipient.
\<close>

theorem transport_refusing_every_call:
  assumes "\<forall>n m. tr n m \<noteq> None"
    and "gpg_expiry_date_str row = Some s" and "s \<noteq> []" and "strptime s = Inr expiry"
    and "gpg_notifiable (gpg_days_until_expiry expiry now)"
    and "email_column (cells row) = Some field"
  shows
    "(\<exists>e w'. send_formatted_email tr sender recipients k x d w = (Inl e, w') \<and>
        attempts w' = attempts w @ replicate 3 (formatted_message sender recipients k x d)) \<and>
     (\<exists>st' w'. gpg_process_row tr now row (st, w) = (st', w') \<and>
        processed st' = processed st + 1 \<and> notified st' = notified st \<and>
        errors st' = errors st + 1 \<and> length (attempts w') = length (attempts w) + 3) \<and>
     (\<exists>w'. send_consolidated_email tr r keys sender w = (0, w') \<and>
        attempts w' = attempts w @ replicate 3 (consolidated_message r keys sender)) \<and>
     (\<exists>w'. testing_send_all tr ((r, keys) # rest) sent w = testing_send_all tr rest sent w' \<and>
        attempts w' =
          attempts w @ replicate 3 (consolidated_message r keys testing_sender_email)) \<and>
     fst (testing_send_all tr bundles sent w) = sent \<and>
     length (attempts (snd (testing_send_all tr bundles sent w))) =
       length (attempts w) + 3 * length bundles"
proof -
  from assms(1) have down: "\<And>n m. tr n m \<noteq> None" by blast
  have three: "replicate 3 m = [m, m, m]" for m :: message
    by (simp add: numeral_3_eq_3)
  have a: "\<exists>e w'. send_formatted_email tr sender recipients k x d w = (Inl e, w') \<and>
      attempts w' = attempts w @ replicate 3 (formatted_message sender recipients k x d)"
    for sender recipients k x d w
    using gpg_send_refused [of tr "formatted_message sender recipients k x d" k w] down
    by (auto simp: send_formatted_email_def three)
  have b: "\<exists>st' w'. gpg_process_row tr now row (st, w) = (st', w') \<and>
      processed st' = processed st + 1 \<and> notified st' = notified st \<and>
      errors st' = errors st + 1 \<and> length (attempts w') = length (attempts w) + 3"
  proof -
    let ?w = "print_line (LogDays (gpg_key_name row) s (gpg_days_until_expiry expiry now))
               (print_line (LogRow row) w)"
    obtain e w' where s: "send_formatted_email tr gpg_sender_email (gpg_recipients field)
        (gpg_key_name row) s (gpg_days_until_expiry expiry now) ?w = (Inl e, w')"
      and l: "attempts w' = attempts ?w @ replicate 3
        (formatted_message gpg_sender_email (gpg_recipients field) (gpg_key_name row) s
           (gpg_days_until_expiry expiry now))"
      using a by blast
    show ?thesis
      by (simp add: gpg_row_due [OF assms(2-6)] s l attempts_print_line)
  qed
  have c: "\<exists>w'. send_consolidated_email tr r keys sender w = (0, w') \<and>
      attempts w' = attempts w @ replicate 3 (consolidated_message r keys sender)"
    for r keys sender w
    using testing_send_refused [of tr "consolidated_message r keys sender" r w] down
    by (auto simp: send_consolidated_email_def three)
  have d: "\<exists>w'. testing_send_all tr ((r, keys) # rest) sent w = testing_send_all tr rest sent w' \<and>
      attempts w' = attempts w @ replicate 3 (consolidated_message r keys testing_sender_email)"
  proof -
    obtain w' where "send_consolidated_email tr r keys testing_sender_email
        (print_line (LogSending r (length keys)) w) = (0, w')"
      and "attempts w' = attempts (print_line (LogSending r (length keys)) w) @
        replicate 3 (consolidated_message r keys testing_sender_email)"
      using c by blast
    then show ?thesis by (auto simp: attempts_print_line)
  qed
  note e = testing_send_all_refused [of tr bundles sent w, OF down]
  show ?thesis using a b c d e by blast
qed

lemma due_16jan: "gpg_notifiable (gpg_days_until_expiry
    \<lparr>year = 2024, month = 1, day = 16, hour = 0, minute = 0, second = 0, microsecond = 0\<rparr>
    now_10am)"
  by (simp add: gpg_days_16jan gpg_notifiable_def)

theorem transport_refusing_every_call_witness:
  "(\<forall>n m. transport_down n m \<noteq> None) \<and>
   gpg_expiry_date_str (example_row ''K1'' ''16-01-2024'' ''r@x.com'') = Some ''16-01-2024'' \<and>
   strptime ''16-01-2024'' =
     Inr \<lparr>year = 2024, month = 1, day = 16, hour = 0, minute = 0, second = 0,
          microsecond = 0\<rparr> \<and>
   email_column (cells (example_row ''K1'' ''16-01-2024'' ''r@x.com'')) = Some ''r@x.com'' \<and>
   (\<exists>st' w'. gpg_process_row transport_down now_10am
                (example_row ''K1'' ''16-01-2024'' ''r@x.com'') (no_stats, quiet) = (st', w') \<and>
      processed st' = 1 \<and> notified st' = 0 \<and> errors st' = 1 \<and> length (attempts w') = 3) \<and>
   fst (testing_send_all transport_down [(''r@x.com'', []), (''s@x.com'', [])] 0 quiet) = 0 \<and>
   length (attempts (snd (testing_send_all transport_down
                            [(''r@x.com'', []), (''s@x.com'', [])] 0 quiet))) = 6"
proof -
  have h1: "\<forall>n m. transport_down n m \<noteq> None"
    by (simp add: transport_down_def)
  have h2: "gpg_expiry_date_str (example_row ''K1'' ''16-01-2024'' ''r@x.com'')
      = Some ''16-01-2024''"
    and h6: "email_column (cells (example_row ''K1'' ''16-01-2024'' ''r@x.com''))
      = Some ''r@x.com''"
    by (simp_all add: example_row_fields)
  have h3: "''16-01-2024'' \<noteq> []" by simp
  note t = transport_refusing_every_call [OF h1 h2 h3 strptime_16jan due_16jan h6,
      where w = quiet and st = no_stats and sent = 0
        and bundles = "[(''r@x.com'', []), (''s@x.com'', [])]"]
  from t have g: "\<exists>st' w'. gpg_process_row transport_down now_10am
                (example_row ''K1'' ''16-01-2024'' ''r@x.com'') (no_stats, quiet) = (st', w') \<and>
      processed st' = 1 \<and> notified st' = 0 \<and> errors st' = 1 \<and> length (attempts w') = 3"
    by (simp add: no_stats_def quiet_def)
  from t have c: "fst (testing_send_all transport_down
                         [(''r@x.com'', []), (''s@x.com'', [])] 0 quiet) = 0"
    and l: "length (attempts (snd (testing_send_all transport_down
                            [(''r@x.com'', []), (''s@x.com'', [])] 0 quiet))) = 6"
    by (simp_all add: quiet_def)
  show ?thesis
    using h1 h2 strptime_16jan h6 g c l by (intro conjI)
qed


section \<open>Rows with an unparseable expiry date\<close>

lemma strptime_iso_date: "strptime ''2024-01-01'' = Inl ValueError"
  by (simp add: strptime_defs)

lemma iso_date_not_na: "upper (strip ''2024-01-01'') \<noteq> ''N/A''"
  by (simp add: strip_def isspace_def upper_def)

lemma testing_row_error:
  assumes "testing_expiry_date_str (stripped_cells row) = Some s" and "s \<noteq> []"
    and "upper (strip s) \<noteq> ''N/A''" and "strptime s = Inl e"
  shows "testing_process_row today row (agg, w) =
    (agg,
     print_line
       (LogRowError (Some (testing_error_key row))
          (if restkey row = None then ValueError else AttributeError))
       (print_line (LogRow row) w))"
proof (cases "restkey row")
  case None
  from assms(4) have e: "e = ValueError" by (rule strptime_error)
  show ?thesis
    using testing_row_unparseable [OF strip_keys_plain [OF None] assms, of today agg w]
    by (simp add: None e)
next
  case (Some extra)
  show ?thesis
    using testing_row_failed_strip [OF strip_keys_surplus [OF Some], of today agg w]
    by (simp add: Some)
qed

text \<open>
  Claim C6, as amended. Let the expiry field of a row be a non-empty text that
  \<open>strptime\<close> rejects. The single-key handler counts the row in \<open>processed\<close> and in
  \<open>errors\<close>, sends nothing, and goes on with the next row. The consolidated handler keeps no
  error counter: unless the text is \<open>N/A\<close>, it prints the error (that of \<open>strptime\<close>, or
  that of line 35 when the row has more values than the header), leaves its counter and
  its bundles as they were, and goes on with the next row.
\<close>

theorem unparseable_expiry_row:
  assumes "s \<noteq> []" and "strptime s = Inl e"
    and "gpg_expiry_date_str grow = Some s"
    and "testing_expiry_date_str (stripped_cells trow) = Some s"
    and "upper (strip s) \<noteq> ''N/A''"
  shows
    "gpg_process_row tr now grow (st, w) =
       (st\<lparr>processed := processed st + 1, errors := errors st + 1\<rparr>,
        print_line (LogRowError (gpg_error_key grow) ValueError) (print_line (LogRow grow) w)) \<and>
     gpg_process_rows tr now (grow # rest) (st, w) =
       gpg_process_rows tr now rest
         (st\<lparr>processed := processed st + 1, errors := errors st + 1\<rparr>,
          print_line (LogRowError (gpg_error_key grow) ValueError)
            (print_line (LogRow grow) w)) \<and>
     testing_process_row today trow (agg, w) =
       (agg,
        print_line
          (LogRowError (Some (testing_error_key trow))
             (if restkey trow = None then ValueError else AttributeError))
          (print_line (LogRow trow) w)) \<and>
     testing_process_rows today (trow # rest') (agg, w) =
       testing_process_rows today rest'
         (agg,
          print_line
            (LogRowError (Some (testing_error_key trow))
               (if restkey trow = None then ValueError else AttributeError))
            (print_line (LogRow trow) w))"
proof -
  from assms(2) have e: "e = ValueError" by (rule strptime_error)
  note g = gpg_row_unparseable [OF assms(3,1,2), of tr now st w, unfolded e]
  note t = testing_row_error [OF assms(4,1,5,2), of today agg w]
  show ?thesis by (simp add: g t)
qed

theorem unparseable_expiry_row_witness:
  "strptime ''2024-01-01'' = Inl ValueError \<and>
   gpg_expiry_date_str (example_row ''K1'' ''2024-01-01'' ''r@x.com'') = Some ''2024-01-01'' \<and>
   testing_expiry_date_str (stripped_cells (example_row ''K1'' ''2024-01-01'' ''r@x.com'')) =
     Some ''2024-01-01'' \<and>
   upper (strip ''2024-01-01'') \<noteq> ''N/A'' \<and>
   gpg_process_row transport_up now_10am (example_row ''K1'' ''2024-01-01'' ''r@x.com'')
       (no_stats, quiet) =
     (\<lparr>processed = 1, notified = 0, errors = 1\<rparr>,
      \<lparr>attempts = [],
       stdout = [LogRow (example_row ''K1'' ''2024-01-01'' ''r@x.com''),
                 LogRowError (Some ''K1'') ValueError]\<rparr>) \<and>
   gpg_process_rows transport_up now_10am
       [example_row ''K1'' ''2024-01-01'' ''r@x.com''] (no_stats, quiet) =
     (\<lparr>processed = 1, notified = 0, errors = 1\<rparr>,
      \<lparr>attempts = [],
       stdout = [LogRow (example_row ''K1'' ''2024-01-01'' ''r@x.com''),
                 LogRowError (Some ''K1'') ValueError]\<rparr>) \<and>
   testing_process_rows today_1jan
       [example_row ''K1'' ''2024-01-01'' ''r@x.com''] (no_keys, quiet) =
     (no_keys,
      \<lparr>attempts = [],
       stdout = [LogRow (example_row ''K1'' ''2024-01-01'' ''r@x.com''),
                 LogRowError (Some ''K1'') ValueError]\<rparr>)"
proof -
  have h1: "''2024-01-01'' \<noteq> []" by simp
  have h3: "gpg_expiry_date_str (example_row ''K1'' ''2024-01-01'' ''r@x.com'')
      = Some ''2024-01-01''"
    and h5: "testing_expiry_date_str
      (stripped_cells (example_row ''K1'' ''2024-01-01'' ''r@x.com'')) = Some ''2024-01-01''"
    by (simp_all add: example_row_fields stripped_cells_example)
  have k: "testing_error_key (example_row ''K1'' ''2024-01-01'' ''r@x.com'') = ''K1''"
    by (simp add: testing_error_key_def strip_keys_example)
      (simp add: example_row_def dict_defs)
  have rk: "restkey (example_row ''K1'' ''2024-01-01'' ''r@x.com'') = None"
    by (simp add: example_row_def)
  note t = unparseable_expiry_row [OF h1 strptime_iso_date h3 h5 iso_date_not_na,
      where tr = transport_up and now = now_10am and st = no_stats and w = quiet
        and rest = "[]" and today = today_1jan and agg = no_keys and rest' = "[]"]
  from t have r1: "gpg_process_row transport_up now_10am
       (example_row ''K1'' ''2024-01-01'' ''r@x.com'') (no_stats, quiet) =
     (\<lparr>processed = 1, notified = 0, errors = 1\<rparr>,
      \<lparr>attempts = [],
       stdout = [LogRow (example_row ''K1'' ''2024-01-01'' ''r@x.com''),
                 LogRowError (Some ''K1'') ValueError]\<rparr>)"
    by (simp add: no_stats_def quiet_def print_line_def example_row_fields)
  from t have r2: "gpg_process_rows transport_up now_10am
       [example_row ''K1'' ''2024-01-01'' ''r@x.com''] (no_stats, quiet) =
     (\<lparr>processed = 1, notified = 0, errors = 1\<rparr>,
      \<lparr>attempts = [],
       stdout = [LogRow (example_row ''K1'' ''2024-01-01'' ''r@x.com''),
                 LogRowError (Some ''K1'') ValueError]\<rparr>)"
    by (simp add: no_stats_def quiet_def print_line_def example_row_fields)
  from t have r3: "testing_process_rows today_1jan
       [example_row ''K1'' ''2024-01-01'' ''r@x.com''] (no_keys, quiet) =
     (no_keys,
      \<lparr>attempts = [],
       stdout = [LogRow (example_row ''K1'' ''2024-01-01'' ''r@x.com''),
                 LogRowError (Some ''K1'') ValueError]\<rparr>)"
    by (simp add: quiet_def print_line_def k rk)
  show ?thesis
    using strptime_iso_date h3 h5 iso_date_not_na r1 r2 r3 by (intro conjI)
qed

theorem testing_counts_no_error:
  "testing_process_row today_1jan (example_row ''K1'' ''2024-01-01'' ''r@x.com'')
       (no_keys, quiet) =
     (no_keys,
      \<lparr>attempts = [],
       stdout = [LogRow (example_row ''K1'' ''2024-01-01'' ''r@x.com''),
                 LogRowError (Some ''K1'') ValueError]\<rparr>) \<and>
   keys_processed (fst (testing_process_row today_1jan
                          (example_row ''K1'' ''2024-01-01'' ''r@x.com'') (no_keys, quiet))) = 0 \<and>
   snd (lambda_handler_testing clients_built transport_up
          (Inr \<lparr>fieldnames = Some [''GPG_Private_Key'', ''GPG_Key_Expiry'', ''PIC_Email''],
                rows = [example_row ''K1'' ''2024-01-01'' ''r@x.com''],
                failure = None\<rparr>)
          today_1jan quiet) =
     \<lparr>attempts = [],
      stdout = [LogColumns (Some [''GPG_Private_Key'', ''GPG_Key_Expiry'', ''PIC_Email'']),
                LogToday today_1jan,
                LogRow (example_row ''K1'' ''2024-01-01'' ''r@x.com''),
                LogRowError (Some ''K1'') ValueError,
                LogProcessedSent 0 0]\<rparr>"
proof -
  have h1: "''2024-01-01'' \<noteq> []" by simp
  have h5: "testing_expiry_date_str (cells (example_row ''K1'' ''2024-01-01'' ''r@x.com''))
      = Some ''2024-01-01''"
    by (simp add: example_row_fields)
  have k: "testing_error_key (example_row ''K1'' ''2024-01-01'' ''r@x.com'') = ''K1''"
    by (simp add: testing_error_key_def strip_keys_example)
      (simp add: example_row_def dict_defs)
  note r = testing_row_unparseable [OF strip_keys_example h5 h1 iso_date_not_na
      strptime_iso_date]
  show ?thesis
    by (simp add: r k lambda_handler_testing_def boto3_clients_def clients_built_def
          testing_try_block_def print_line_def quiet_def no_keys_def Let_def)
qed


section \<open>Resolving the expiry column\<close>

lemma first_nonempty_three:
  "first_nonempty d [a, b, c] =
     (if truthy (py_or (py_or (dict_get d a) (dict_get d b)) (dict_get d c))
      then py_or (py_or (dict_get d a) (dict_get d b)) (dict_get d c) else None)"
  by (simp add: first_nonempty_def py_or_def)

lemma gpg_expiry_resolution:
  "(if truthy (gpg_expiry_date_str row) then gpg_expiry_date_str row else None) =
     first_nonempty (cells row) [''GPG_Key_Expiry'', ''GPG_key_expiry'', ''expiry_date'']"
  by (simp only: first_nonempty_three gpg_expiry_date_str_def)

text \<open>
  Claim C8. The expiry field should be resolved from the header names \<open>GPG_Key_Expiry\<close>,
  \<open>GPG_key_expiry\<close> and \<open>expiry_date\<close>, in this order. The single-key handler does so. The
  consolidated handler asks for \<open>gpg_key_expiry\<close> in the second place (line 40), while it
  reads the key name from \<open>GPG_private_key\<close>: a row whose expiry date stands under the
  header \<open>GPG_key_expiry\<close>, a key due in 14 days here, resolves to no expiry date there and
  is skipped as if it had none.
\<close>

theorem testing_ignores_GPG_key_expiry:
  "first_nonempty [(''GPG_private_key'', Some ''K1''), (''GPG_key_expiry'', Some ''15-01-2024''),
                   (''PIC_Email'', Some ''r@x.com'')]
     [''GPG_Key_Expiry'', ''GPG_key_expiry'', ''expiry_date''] = Some ''15-01-2024'' \<and>
   gpg_expiry_date_str
     \<lparr>cells = [(''GPG_private_key'', Some ''K1''), (''GPG_key_expiry'', Some ''15-01-2024''),
               (''PIC_Email'', Some ''r@x.com'')], restkey = None\<rparr> = Some ''15-01-2024'' \<and>
   strip_keys
     \<lparr>cells = [(''GPG_private_key'', Some ''K1''), (''GPG_key_expiry'', Some ''15-01-2024''),
               (''PIC_Email'', Some ''r@x.com'')], restkey = None\<rparr> =
     Inr [(''GPG_private_key'', Some ''K1''), (''GPG_key_expiry'', Some ''15-01-2024''),
          (''PIC_Email'', Some ''r@x.com'')] \<and>
   testing_key_name [(''GPG_private_key'', Some ''K1''), (''GPG_key_expiry'', Some ''15-01-2024''),
                     (''PIC_Email'', Some ''r@x.com'')] = ''K1'' \<and>
   testing_expiry_date_str [(''GPG_private_key'', Some ''K1''),
                            (''GPG_key_expiry'', Some ''15-01-2024''),
                            (''PIC_Email'', Some ''r@x.com'')] = None \<and>
   testing_process_row today_1jan
       \<lparr>cells = [(''GPG_private_key'', Some ''K1''), (''GPG_key_expiry'', Some ''15-01-2024''),
                 (''PIC_Email'', Some ''r@x.com'')], restkey = None\<rparr> (no_keys, quiet) =
     (no_keys,
      \<lparr>attempts = [],
       stdout = [LogRow \<lparr>cells = [(''GPG_private_key'', Some ''K1''),
                                  (''GPG_key_expiry'', Some ''15-01-2024''),
                                  (''PIC_Email'', Some ''r@x.com'')], restkey = None\<rparr>,
                 LogNoValidExpiry ''K1'']\<rparr>)"
proof -
  have k: "strip_keys \<lparr>cells = [(''GPG_private_key'', Some ''K1''),
        (''GPG_key_expiry'', Some ''15-01-2024''), (''PIC_Email'', Some ''r@x.com'')],
        restkey = None\<rparr> =
     Inr [(''GPG_private_key'', Some ''K1''), (''GPG_key_expiry'', Some ''15-01-2024''),
          (''PIC_Email'', Some ''r@x.com'')]"
    by (simp add: strip_keys_def stripped_cells_def strip_def isspace_def)
  have f: "first_nonempty [(''GPG_private_key'', Some ''K1''),
        (''GPG_key_expiry'', Some ''15-01-2024''), (''PIC_Email'', Some ''r@x.com'')]
     [''GPG_Key_Expiry'', ''GPG_key_expiry'', ''expiry_date''] = Some ''15-01-2024''"
    by (simp add: first_nonempty_def dict_defs)
  have g: "gpg_expiry_date_str
     \<lparr>cells = [(''GPG_private_key'', Some ''K1''), (''GPG_key_expiry'', Some ''15-01-2024''),
               (''PIC_Email'', Some ''r@x.com'')], restkey = None\<rparr> = Some ''15-01-2024''"
    by (simp add: gpg_expiry_date_str_def dict_defs)
  have e: "testing_expiry_date_str [(''GPG_private_key'', Some ''K1''),
        (''GPG_key_expiry'', Some ''15-01-2024''), (''PIC_Email'', Some ''r@x.com'')] = None"
    and n: "testing_key_name [(''GPG_private_key'', Some ''K1''),
        (''GPG_key_expiry'', Some ''15-01-2024''), (''PIC_Email'', Some ''r@x.com'')] = ''K1''"
    by (simp_all add: testing_expiry_date_str_def testing_key_name_def dict_defs)
  have "\<not> truthy (testing_expiry_date_str [(''GPG_private_key'', Some ''K1''),
        (''GPG_key_expiry'', Some ''15-01-2024''), (''PIC_Email'', Some ''r@x.com'')])"
    by (simp add: e truthy_def)
  note r = testing_row_no_expiry [OF k this, of today_1jan no_keys quiet]
  have p: "testing_process_row today_1jan
       \<lparr>cells = [(''GPG_private_key'', Some ''K1''), (''GPG_key_expiry'', Some ''15-01-2024''),
                 (''PIC_Email'', Some ''r@x.com'')], restkey = None\<rparr> (no_keys, quiet) =
     (no_keys,
      \<lparr>attempts = [],
       stdout = [LogRow \<lparr>cells = [(''GPG_private_key'', Some ''K1''),
                                  (''GPG_key_expiry'', Some ''15-01-2024''),
                                  (''PIC_Email'', Some ''r@x.com'')], restkey = None\<rparr>,
                 LogNoValidExpiry ''K1'']\<rparr>)"
    unfolding r by (simp add: n quiet_def print_line_def)
  show ?thesis using f g k n e p by (intro conjI)
qed


lemma gpg_row_counts:
  "processed (fst (gpg_process_row tr now row (st, w))) = processed st + 1 \<and>
   (notified (fst (gpg_process_row tr now row (st, w))) = notified st + 1 \<and>
      errors (fst (gpg_process_row tr now row (st, w))) = errors st \<or>
    notified (fst (gpg_process_row tr now row (st, w))) = notified st \<and>
      errors (fst (gpg_process_row tr now row (st, w))) = errors st + 1 \<or>
    notified (fst (gpg_process_row tr now row (st, w))) = notified st \<and>
      errors (fst (gpg_process_row tr now row (st, w))) = errors st)"
  by (auto simp: gpg_process_row_def gpg_row_body_def Let_def
      split: sum.splits option.splits prod.splits)

lemma gpg_rows_counts:
  "processed (fst (gpg_process_rows tr now rs sw)) = processed (fst sw) + int (length rs) \<and>
   notified (fst sw) \<le> notified (fst (gpg_process_rows tr now rs sw)) \<and>
   errors (fst sw) \<le> errors (fst (gpg_process_rows tr now rs sw)) \<and>
   notified (fst (gpg_process_rows tr now rs sw)) +
     errors (fst (gpg_process_rows tr now rs sw))
     \<le> notified (fst sw) + errors (fst sw) + int (length rs)"
proof (induction rs arbitrary: sw)
  case Nil
  show ?case by simp
next
  case (Cons row rs)
  obtain st w where sw: "sw = (st, w)" by (cases sw)
  note step = gpg_row_counts [of tr now row st w]
  note rest = Cons.IH [of "gpg_process_row tr now row (st, w)"]
  show ?case
    unfolding sw using step rest by (simp; linarith)
qed

text \<open>
  Claim C10. In the single-key handler every row adds exactly one to \<open>processed\<close>, whatever
  becomes of it, and adds one to at most one of \<open>notified\<close> and \<open>errors\<close>. Hence after any
  number \<open>n\<close> of iterations of the row loop, started from zero as the handler does,
  \<open>processed\<close> is the number of rows taken so far and \<open>notified + errors \<le> processed\<close>; with
  \<open>n\<close> the length of the manifest this is the end of the run.
\<close>

theorem gpg_counters_invariant:
  "processed (fst (gpg_process_row tr now row (st, w))) = processed st + 1 \<and>
   (notified (fst (gpg_process_row tr now row (st, w))) = notified st + 1 \<and>
      errors (fst (gpg_process_row tr now row (st, w))) = errors st \<or>
    notified (fst (gpg_process_row tr now row (st, w))) = notified st \<and>
      errors (fst (gpg_process_row tr now row (st, w))) = errors st + 1 \<or>
    notified (fst (gpg_process_row tr now row (st, w))) = notified st \<and>
      errors (fst (gpg_process_row tr now row (st, w))) = errors st) \<and>
   processed (fst (gpg_process_rows tr now (take n rs)
                     (\<lparr>processed = 0, notified = 0, errors = 0\<rparr>, w)))
     = int (min n (length rs)) \<and>
   0 \<le> notified (fst (gpg_process_rows tr now (take n rs)
                        (\<lparr>processed = 0, notified = 0, errors = 0\<rparr>, w))) \<and>
   0 \<le> errors (fst (gpg_process_rows tr now (take n rs)
                      (\<lparr>processed = 0, notified = 0, errors = 0\<rparr>, w))) \<and>
   notified (fst (gpg_process_rows tr now (take n rs)
                    (\<lparr>processed = 0, notified = 0, errors = 0\<rparr>, w))) +
     errors (fst (gpg_process_rows tr now (take n rs)
                    (\<lparr>processed = 0, notified = 0, errors = 0\<rparr>, w)))
     \<le> processed (fst (gpg_process_rows tr now (take n rs)
                         (\<lparr>processed = 0, notified = 0, errors = 0\<rparr>, w)))"
  using gpg_row_counts [of tr now row st w]
    gpg_rows_counts [of tr now "take n rs" "(\<lparr>processed = 0, notified = 0, errors = 0\<rparr>, w)"]
  by (simp add: min_def)


section \<open>The handlers as a whole\<close>

lemma gpg_rows_then:
  "\<exists>st w'. gpg_process_rows tr now rs sw = (st, w')"
  by (cases "gpg_process_rows tr now rs sw") blast

text \<open>
  Claim C9, as amended. Once the two clients are built, neither handler lets an
  exception out, whatever the manifest and the transport do. When the fetch fails with
  \<open>e\<close>, or the reader raises \<open>e\<close> after some rows, the single-key handler returns status
  500 with \<open>e\<close> in the body and a log line, and the consolidated handler prints its
  \<open>Fatal error\<close> line with \<open>e\<close> and returns, in the latter case without having sent
  anything. When the reader ends, the single-key handler returns status 200 with the
  counts of its row loop. (The construction of a client stands before the \<open>try\<close>: an
  exception it raises leaves the handler.)
\<close>

theorem handlers_catch_all_once_clients_built:
  assumes "boto3_clients env = None"
  shows
    "(\<exists>r w'. lambda_handler_gpg env tr fetch now w = (Inr r, w')) \<and>
     (\<exists>w'. lambda_handler_testing env tr fetch today w = (Inr (), w')) \<and>
     lambda_handler_gpg env tr (Inl e) now w =
       (Inr \<lparr>statusCode = 500, body = ErrorBody e\<rparr>, print_line (LogFailed e) w) \<and>
     lambda_handler_testing env tr (Inl e) today w = (Inr (), print_line (LogFatal e) w) \<and>
     (\<exists>w'. lambda_handler_gpg env tr (Inr (csv_reader\<lparr>failure := Some e\<rparr>)) now w =
        (Inr \<lparr>statusCode = 500, body = ErrorBody e\<rparr>, print_line (LogFailed e) w')) \<and>
     (\<exists>w'. lambda_handler_testing env tr (Inr (csv_reader\<lparr>failure := Some e\<rparr>)) today w =
        (Inr (), print_line (LogFatal e) w') \<and> attempts w' = attempts w) \<and>
     (\<exists>(st :: stats) w'. lambda_handler_gpg env tr (Inr (csv_reader\<lparr>failure := None\<rparr>)) now w =
        (Inr \<lparr>statusCode = 200, body = ProcessedBody (processed st) (notified st)\<rparr>,
         print_line (LogSummary (processed st) (notified st) (errors st)) w') \<and>
        processed st = int (length (rows csv_reader)))"
proof -
  have a: "\<exists>r w'. lambda_handler_gpg env tr fetch now w = (Inr r, w')"
    by (cases "gpg_try_block tr fetch now w"; cases "fst (gpg_try_block tr fetch now w)")
      (simp_all add: lambda_handler_gpg_def assms)
  have b: "\<exists>w'. lambda_handler_testing env tr fetch today w = (Inr (), w')"
    by (cases "testing_try_block tr fetch today w";
        cases "fst (testing_try_block tr fetch today w)")
      (simp_all add: lambda_handler_testing_def assms)
  have c: "lambda_handler_gpg env tr (Inl e) now w =
     (Inr \<lparr>statusCode = 500, body = ErrorBody e\<rparr>, print_line (LogFailed e) w)"
    by (simp add: lambda_handler_gpg_def gpg_try_block_def assms)
  have d: "lambda_handler_testing env tr (Inl e) today w = (Inr (), print_line (LogFatal e) w)"
    by (simp add: lambda_handler_testing_def testing_try_block_def assms)
  have f: "\<exists>w'. lambda_handler_gpg env tr (Inr (csv_reader\<lparr>failure := Some e\<rparr>)) now w =
      (Inr \<lparr>statusCode = 500, body = ErrorBody e\<rparr>, print_line (LogFailed e) w')"
    by (auto simp: lambda_handler_gpg_def gpg_try_block_def Let_def assms split: prod.splits)
  have g: "\<exists>w'. lambda_handler_testing env tr (Inr (csv_reader\<lparr>failure := Some e\<rparr>)) today w =
      (Inr (), print_line (LogFatal e) w') \<and> attempts w' = attempts w"
  proof -
    let ?aw = "testing_process_rows today (rows csv_reader)
      (\<lparr>keys_processed = 0, recipient_keys = []\<rparr>,
       print_line (LogToday today) (print_line (LogColumns (fieldnames csv_reader)) w))"
    have "attempts (snd ?aw) = attempts w"
      by (simp add: testing_process_rows_attempts attempts_print_line)
    moreover have "lambda_handler_testing env tr (Inr (csv_reader\<lparr>failure := Some e\<rparr>)) today w =
      (Inr (), print_line (LogFatal e) (snd ?aw))"
      by (simp add: lambda_handler_testing_def testing_try_block_def Let_def assms
            split: prod.splits)
    ultimately show ?thesis by blast
  qed
  have h: "\<exists>(st :: stats) w'. lambda_handler_gpg env tr (Inr (csv_reader\<lparr>failure := None\<rparr>)) now w =
        (Inr \<lparr>statusCode = 200, body = ProcessedBody (processed st) (notified st)\<rparr>,
         print_line (LogSummary (processed st) (notified st) (errors st)) w') \<and>
        processed st = int (length (rows csv_reader))"
  proof -
    let ?sw = "(\<lparr>processed = 0, notified = 0, errors = 0\<rparr>,
      print_line (LogToday (date_of now)) (print_line (LogColumns (fieldnames csv_reader)) w))"
    obtain st w' where r: "gpg_process_rows tr now (rows csv_reader) ?sw = (st, w')"
      using gpg_rows_then by blast
    have "processed (fst (gpg_process_rows tr now (rows csv_reader) ?sw)) =
      processed (fst ?sw) + int (length (rows csv_reader))"
      using gpg_rows_counts [of tr now "rows csv_reader" ?sw] by blast
    then have p: "processed st = int (length (rows csv_reader))"
      by (simp add: r)
    have "lambda_handler_gpg env tr (Inr (csv_reader\<lparr>failure := None\<rparr>)) now w =
        (Inr \<lparr>statusCode = 200, body = ProcessedBody (processed st) (notified st)\<rparr>,
         print_line (LogSummary (processed st) (notified st) (errors st)) w')"
      by (simp add: lambda_handler_gpg_def gpg_try_block_def Let_def assms r)
    with p show ?thesis by blast
  qed
  show ?thesis using a b c d f g h by (intro conjI)
qed

theorem handlers_catch_all_once_clients_built_witness:
  "boto3_clients clients_built = None \<and>
   lambda_handler_gpg clients_built transport_up (Inl (External ''NoSuchKey'')) now_10am quiet =
     (Inr \<lparr>statusCode = 500, body = ErrorBody (External ''NoSuchKey'')\<rparr>,
      \<lparr>attempts = [], stdout = [LogFailed (External ''NoSuchKey'')]\<rparr>) \<and>
   lambda_handler_testing clients_built transport_up (Inl (External ''NoSuchKey'')) today_1jan
       quiet =
     (Inr (), \<lparr>attempts = [], stdout = [LogFatal (External ''NoSuchKey'')]\<rparr>)"
proof -
  have h: "boto3_clients clients_built = None"
    by (simp add: boto3_clients_def clients_built_def)
  note t = handlers_catch_all_once_clients_built [OF h,
      where tr = transport_up and e = "External ''NoSuchKey''" and now = now_10am
        and today = today_1jan and w = quiet and fetch = "Inl (External ''NoSuchKey'')"
        and csv_reader = "\<lparr>fieldnames = None, rows = [], failure = None\<rparr>"]
  note c = t [THEN conjunct2, THEN conjunct2, THEN conjunct1]
  note d = t [THEN conjunct2, THEN conjunct2, THEN conjunct2, THEN conjunct1]
  from c have a: "lambda_handler_gpg clients_built transport_up (Inl (External ''NoSuchKey''))
      now_10am quiet =
     (Inr \<lparr>statusCode = 500, body = ErrorBody (External ''NoSuchKey'')\<rparr>,
      \<lparr>attempts = [], stdout = [LogFailed (External ''NoSuchKey'')]\<rparr>)"
    by (simp add: quiet_def print_line_def)
  from d have b: "lambda_handler_testing clients_built transport_up
      (Inl (External ''NoSuchKey'')) today_1jan quiet =
     (Inr (), \<lparr>attempts = [], stdout = [LogFatal (External ''NoSuchKey'')]\<rparr>)"
    by (simp add: quiet_def print_line_def)
  show ?thesis using h a b by (intro conjI)
qed

theorem client_construction_raises:
  "lambda_handler_gpg no_region transport_up
       (Inr \<lparr>fieldnames = Some [''GPG_Private_Key'', ''GPG_Key_Expiry'', ''PIC_Email''],
             rows = [], failure = None\<rparr>) now_10am quiet =
     (Inl (External ''You must specify a region.''), quiet) \<and>
   lambda_handler_testing no_region transport_up
       (Inr \<lparr>fieldnames = Some [''GPG_Private_Key'', ''GPG_Key_Expiry'', ''PIC_Email''],
             rows = [], failure = None\<rparr>) today_1jan quiet =
     (Inl (External ''You must specify a region.''), quiet)"
  by (simp add: lambda_handler_gpg_def lambda_handler_testing_def boto3_clients_def
        no_region_def)


section \<open>Aggregation by recipient\<close>






























end
